theory Spec2Isabelle
  imports Main "HOL-Library.Word"
begin

section \<open>Common types of sunxi\_hdmi\_fb.c\<close>

text \<open>
  The utility is compiled for 32-bit ARM: \<open>uint32_t\<close>, \<open>unsigned int\<close> and the words of
  the ioctl argument vector are 32-bit words. A C \<open>int\<close> that only carries a return
  value (never arithmetic) is an \<open>int\<close>; where the source casts it to \<open>uint32_t\<close> the
  model applies \<open>word_of_int\<close>.
\<close>

type_synonym u32 = "32 word"

datatype de_version_t = DE_VERSION_UNKNOWN | DE_VERSION_1 | DE_VERSION_2

text \<open>\<open>disp_tv_mode\<close>: the enumerators the program names, as 32-bit values.\<close>

definition DISP_TV_MOD_480I :: u32 where "DISP_TV_MOD_480I = 0"
definition DISP_TV_MOD_576I :: u32 where "DISP_TV_MOD_576I = 1"
definition DISP_TV_MOD_720P_50HZ :: u32 where "DISP_TV_MOD_720P_50HZ = 4"
definition DISP_TV_MOD_720P_60HZ :: u32 where "DISP_TV_MOD_720P_60HZ = 5"
definition DISP_TV_MOD_3840_2160P_30HZ :: u32 where "DISP_TV_MOD_3840_2160P_30HZ = 0x1c"
definition DISP_TV_MODE_NUM :: int where "DISP_TV_MODE_NUM = 0x1f"
definition DEFAULT_HDMI_MODE :: u32 where "DEFAULT_HDMI_MODE = DISP_TV_MOD_720P_50HZ"

definition DISP_OUTPUT_TYPE_NONE :: u32 where "DISP_OUTPUT_TYPE_NONE = 0"
definition DISP_OUTPUT_TYPE_HDMI :: u32 where "DISP_OUTPUT_TYPE_HDMI = 4"

section \<open>Mode table\<close>

text \<open>
  \<open>mode_info_t\<close>; the \<open>name\<close> pointer is an option, \<open>None\<close> for \<open>NULL\<close>. The table ends
  with the sentinel whose name is \<open>NULL\<close> and whose mode is \<open>(disp_tv_mode)-1\<close>.
\<close>

record mode_info_t =
  mi_mode :: u32
  mi_name :: "string option"
  mi_width :: u32
  mi_height :: u32
  mi_refresh :: u32

definition mk_mode :: "u32 \<Rightarrow> string option \<Rightarrow> u32 \<Rightarrow> u32 \<Rightarrow> u32 \<Rightarrow> mode_info_t" where
  "mk_mode m n w h r =
     \<lparr>mi_mode = m, mi_name = n, mi_width = w, mi_height = h, mi_refresh = r\<rparr>"

definition mode_table :: "mode_info_t list" where
  "mode_table =
   [ mk_mode 0    (Some ''480i'')     720  480 60,
     mk_mode 1    (Some ''576i'')     720  576 50,
     mk_mode 2    (Some ''480p'')     720  480 60,
     mk_mode 3    (Some ''576p'')     720  576 50,
     mk_mode 4    (Some ''720p50'')  1280  720 50,
     mk_mode 5    (Some ''720p60'')  1280  720 60,
     mk_mode 6    (Some ''1080i50'') 1920 1080 50,
     mk_mode 7    (Some ''1080i60'') 1920 1080 60,
     mk_mode 8    (Some ''1080p24'') 1920 1080 24,
     mk_mode 9    (Some ''1080p50'') 1920 1080 50,
     mk_mode 0xa  (Some ''1080p60'') 1920 1080 60,
     mk_mode 0x1a (Some ''1080p25'') 1920 1080 25,
     mk_mode 0x1b (Some ''1080p30'') 1920 1080 30,
     mk_mode 0x1c (Some ''2160p30'') 3840 2160 30,
     mk_mode 0x1d (Some ''2160p25'') 3840 2160 25,
     mk_mode 0x1e (Some ''2160p24'') 3840 2160 24,
     mk_mode (- 1) None 0 0 0 ]"

text \<open>
  \<open>strcasecmp\<close> of the C library in the POSIX locale: both strings are walked in step,
  each byte lowered; the first difference is returned, and a common NUL (the end of a
  string, or a NUL byte in it) ends the comparison with 0.
\<close>

definition tolower_c :: "char \<Rightarrow> char" where
  "tolower_c c =
     (case map_of (zip ''ABCDEFGHIJKLMNOPQRSTUVWXYZ'' ''abcdefghijklmnopqrstuvwxyz'') c of
        Some l \<Rightarrow> l
      | None \<Rightarrow> c)"

definition NUL :: char where "NUL = CHR 0x00"

fun strcasecmp :: "string \<Rightarrow> string \<Rightarrow> int" where
  "strcasecmp [] [] = 0"
| "strcasecmp [] (b # bs) = - of_char (tolower_c b)"
| "strcasecmp (a # as) [] = of_char (tolower_c a)"
| "strcasecmp (a # as) (b # bs) =
     (if tolower_c a \<noteq> tolower_c b then of_char (tolower_c a) - of_char (tolower_c b)
      else if a = NUL then 0
      else strcasecmp as bs)"

text \<open>
  The three lookups walk \<open>mode_table[i]\<close> from \<open>i = 0\<close> until the entry whose name is
  \<open>NULL\<close>. The returned pointer \<open>&mode_table[i]\<close> is the index \<open>i\<close>; \<open>NULL\<close> is \<open>None\<close>.
  The first equation (the walk leaving the array) is never reached on \<open>mode_table\<close>,
  whose last entry stops the loop.
\<close>

fun find_res_from :: "nat \<Rightarrow> mode_info_t list \<Rightarrow> u32 \<Rightarrow> u32 \<Rightarrow> u32 \<Rightarrow> nat option" where
  "find_res_from i [] w h refresh = None"
| "find_res_from i (m # ms) w h refresh =
     (if mi_name m = None then None
      else if mi_width m = w \<and> mi_height m = h \<and> (refresh = 0 \<or> mi_refresh m = refresh)
      then Some i
      else find_res_from (Suc i) ms w h refresh)"

definition find_mode_by_resolution :: "u32 \<Rightarrow> u32 \<Rightarrow> u32 \<Rightarrow> nat option" where
  "find_mode_by_resolution w h refresh = find_res_from 0 mode_table w h refresh"

fun find_name_from :: "nat \<Rightarrow> mode_info_t list \<Rightarrow> string \<Rightarrow> nat option" where
  "find_name_from i [] nm = None"
| "find_name_from i (m # ms) nm =
     (case mi_name m of
        None \<Rightarrow> None
      | Some n \<Rightarrow> if strcasecmp n nm = 0 then Some i else find_name_from (Suc i) ms nm)"

definition find_mode_by_name :: "string \<Rightarrow> nat option" where
  "find_mode_by_name nm = find_name_from 0 mode_table nm"

fun find_id_from :: "nat \<Rightarrow> mode_info_t list \<Rightarrow> u32 \<Rightarrow> nat option" where
  "find_id_from i [] md = None"
| "find_id_from i (m # ms) md =
     (if mi_name m = None then None
      else if mi_mode m = md then Some i
      else find_id_from (Suc i) ms md)"

definition get_mode_info :: "u32 \<Rightarrow> nat option" where
  "get_mode_info md = find_id_from 0 mode_table md"


section \<open>Wire structures and the device boundary\<close>

text \<open>
  \<open>de1_fb_create_para_t\<close>, field for field. The enumerations \<open>de1_fb_mode\<close> and
  \<open>de1_layer_work_mode\<close> are stored as their 32-bit values.
\<close>

definition DE1_LAYER_WORK_MODE_NORMAL :: u32 where "DE1_LAYER_WORK_MODE_NORMAL = 0"
definition DE1_LAYER_WORK_MODE_SCALER :: u32 where "DE1_LAYER_WORK_MODE_SCALER = 4"
definition DE1_FB_MODE_SCREEN0 :: u32 where "DE1_FB_MODE_SCREEN0 = 0"

record de1_fb_create_para_t =
  p_fb_mode :: u32
  p_mode :: u32
  p_buffer_num :: u32
  p_width :: u32
  p_height :: u32
  p_output_width :: u32
  p_output_height :: u32
  p_primary_screen_id :: u32
  p_aux_output_width :: u32
  p_aux_output_height :: u32
  p_line_length :: u32
  p_smem_len :: u32
  p_ch1_offset :: u32
  p_ch2_offset :: u32

text \<open>\<open>memset(&para, 0, sizeof(para))\<close>.\<close>

definition zero_para :: de1_fb_create_para_t where
  "zero_para =
     \<lparr>p_fb_mode = 0, p_mode = 0, p_buffer_num = 0, p_width = 0, p_height = 0,
      p_output_width = 0, p_output_height = 0, p_primary_screen_id = 0,
      p_aux_output_width = 0, p_aux_output_height = 0, p_line_length = 0, p_smem_len = 0,
      p_ch1_offset = 0, p_ch2_offset = 0\<rparr>"

text \<open>
  The fields of \<open>struct fb_var_screeninfo\<close> (linux/fb.h) that the program reads or
  writes; the fields it never touches are left out. Of \<open>struct fb_fix_screeninfo\<close> the
  program only prints two fields, so no value of it is carried.
\<close>

record fb_bitfield =
  bf_offset :: u32
  bf_length :: u32

record fb_var_screeninfo =
  xres :: u32
  yres :: u32
  xres_virtual :: u32
  yres_virtual :: u32
  bits_per_pixel :: u32
  red :: fb_bitfield
  green :: fb_bitfield
  blue :: fb_bitfield
  transp :: fb_bitfield

text \<open>
  One word of the four-word ioctl argument vector: a plain value, or a pointer, which is
  modelled by what it points to (the creation parameters, or the zeroed \<open>de2_output\<close>
  that the driver fills).
\<close>

datatype ioarg = Val u32 | Ptr_para de1_fb_create_para_t | Ptr_output

text \<open>
  Every interaction of the process with its environment: reading the two text sources,
  opening the two devices, an ioctl on \<open>/dev/disp\<close>, and the three framebuffer ioctls
  the program uses. \<open>close\<close> and the output on stdout and stderr are not recorded.
\<close>

datatype dcall =
    Read_cpuinfo
  | Read_hdmi_state
  | Open_disp
  | Ioctl_disp nat "ioarg list"
  | Open_fb_rdwr
  | Open_fb_rdonly
  | Fbioget_vscreeninfo
  | Fbioput_vscreeninfo fb_var_screeninfo
  | Fbioget_fscreeninfo

text \<open>
  What the environment answers to one call: the return value and \<open>errno\<close>; for
  \<open>DE2_CMD_GET_OUTPUT\<close> the \<open>mode\<close> field written to the output structure; for
  \<open>FBIOGET_VSCREENINFO\<close> the structure written; for \<open>/proc/cpuinfo\<close> the text of the
  file (\<open>None\<close> when \<open>fopen\<close> fails); for the hot-plug state file the integer that
  \<open>fscanf\<close> converts (\<open>None\<close> when the file cannot be opened or holds no integer).
\<close>

record resp =
  r_ret :: int
  r_errno :: int
  r_out_mode :: u32
  r_vinfo :: fb_var_screeninfo
  r_text :: "string option"
  r_state :: "int option"

definition ENOTTY :: int where "ENOTTY = 25"

text \<open>
  The global variables of the program, the calls made so far, and the environment: the
  answer to a call may depend on every call made before it.
\<close>

record world =
  g_de_version :: de_version_t
  g_disp_fd :: int
  g_fb_fd :: int
  g_screen :: u32
  g_verbose :: int
  g_force :: int
  trace :: "dcall list"
  driver :: "dcall list \<Rightarrow> dcall \<Rightarrow> resp"

definition syscall :: "dcall \<Rightarrow> world \<Rightarrow> resp \<times> world" where
  "syscall c s = (driver s (trace s) c, s\<lparr>trace := trace s @ [c]\<rparr>)"

text \<open>DE1 and DE2 command codes.\<close>

definition DE1_CMD_SCN_GET_WIDTH :: nat where "DE1_CMD_SCN_GET_WIDTH = 0x08"
definition DE1_CMD_SCN_GET_HEIGHT :: nat where "DE1_CMD_SCN_GET_HEIGHT = 0x09"
definition DE1_CMD_GET_OUTPUT_TYPE :: nat where "DE1_CMD_GET_OUTPUT_TYPE = 0x0a"
definition DE1_CMD_HDMI_ON :: nat where "DE1_CMD_HDMI_ON = 0x1c0"
definition DE1_CMD_HDMI_OFF :: nat where "DE1_CMD_HDMI_OFF = 0x1c1"
definition DE1_CMD_HDMI_SET_MODE :: nat where "DE1_CMD_HDMI_SET_MODE = 0x1c2"
definition DE1_CMD_HDMI_GET_MODE :: nat where "DE1_CMD_HDMI_GET_MODE = 0x1c3"
definition DE1_CMD_HDMI_SUPPORT_MODE :: nat where "DE1_CMD_HDMI_SUPPORT_MODE = 0x1c4"
definition DE1_CMD_HDMI_GET_HPD :: nat where "DE1_CMD_HDMI_GET_HPD = 0x1c5"
definition DE1_CMD_FB_REQUEST :: nat where "DE1_CMD_FB_REQUEST = 0x280"
definition DE1_CMD_FB_RELEASE :: nat where "DE1_CMD_FB_RELEASE = 0x281"

definition DE2_CMD_GET_SCN_WIDTH :: nat where "DE2_CMD_GET_SCN_WIDTH = 0x07"
definition DE2_CMD_GET_SCN_HEIGHT :: nat where "DE2_CMD_GET_SCN_HEIGHT = 0x08"
definition DE2_CMD_GET_OUTPUT_TYPE :: nat where "DE2_CMD_GET_OUTPUT_TYPE = 0x09"
definition DE2_CMD_DEVICE_SWITCH :: nat where "DE2_CMD_DEVICE_SWITCH = 0x0f"
definition DE2_CMD_GET_OUTPUT :: nat where "DE2_CMD_GET_OUTPUT = 0x10"
definition DE2_CMD_HDMI_SUPPORT_MODE :: nat where "DE2_CMD_HDMI_SUPPORT_MODE = 0xc4"

section \<open>Display engine version detection\<close>

text \<open>
  \<open>fgets(line, 256, f)\<close> in a loop: each call delivers at most 255 bytes and stops
  after a newline. \<open>fgets_chunks k acc text\<close> is the list of buffers the loop sees, with
  \<open>k\<close> bytes of room left in the current buffer and \<open>acc\<close> its content so far,
  reversed.
\<close>

definition newline :: char where "newline = CHR 0x0A"

fun fgets_chunks :: "nat \<Rightarrow> string \<Rightarrow> string \<Rightarrow> string list" where
  "fgets_chunks k acc [] = (if acc = [] then [] else [rev acc])"
| "fgets_chunks k acc (c # cs) =
     (if c = newline \<or> k \<le> 1 then rev (c # acc) # fgets_chunks 255 [] cs
      else fgets_chunks (k - 1) (c # acc) cs)"

text \<open>
  \<open>strstr(line, needle) != NULL\<close>: the buffer is a C string, so it ends at its first
  NUL byte.
\<close>

fun occurs_in :: "string \<Rightarrow> string \<Rightarrow> bool" where
  "occurs_in needle [] = (needle = [])"
| "occurs_in needle (h # hs) = (take (length needle) (h # hs) = needle \<or> occurs_in needle hs)"

definition strstr :: "string \<Rightarrow> string \<Rightarrow> bool" where
  "strstr line needle = occurs_in needle (takeWhile (\<lambda>c. c \<noteq> NUL) line)"

definition is_de1_hardware :: "string \<Rightarrow> bool" where
  "is_de1_hardware line =
     (strstr line ''sun7i'' \<or> strstr line ''A20'' \<or> strstr line ''sun4i'' \<or> strstr line ''A10'')"

definition is_de2_hardware :: "string \<Rightarrow> bool" where
  "is_de2_hardware line =
     (strstr line ''sun8i'' \<or> strstr line ''H3'' \<or> strstr line ''H5'' \<or>
      strstr line ''sun50i'' \<or> strstr line ''A64'')"

definition classify_hardware :: "string \<Rightarrow> de_version_t" where
  "classify_hardware line =
     (if is_de1_hardware line then DE_VERSION_1
      else if is_de2_hardware line then DE_VERSION_2
      else DE_VERSION_UNKNOWN)"

fun scan_cpuinfo :: "string list \<Rightarrow> de_version_t" where
  "scan_cpuinfo [] = DE_VERSION_UNKNOWN"
| "scan_cpuinfo (line # rest) =
     (if strstr line ''Hardware'' then classify_hardware line else scan_cpuinfo rest)"

definition detect_soc_from_cpuinfo :: "world \<Rightarrow> de_version_t \<times> world" where
  "detect_soc_from_cpuinfo s =
     (case syscall Read_cpuinfo s of
        (r, s1) \<Rightarrow>
          (case r_text r of
             None \<Rightarrow> (DE_VERSION_UNKNOWN, s1)
           | Some text \<Rightarrow> (scan_cpuinfo (fgets_chunks 255 [] text), s1)))"

text \<open>
  The probe calls \<open>ioctl\<close> on the descriptor directly. The driver is taken not to write
  into the argument vector, so \<open>args[2]\<close> and \<open>args[3]\<close> are still 0 in the second call.
\<close>

definition detect_by_ioctl_probe :: "world \<Rightarrow> de_version_t \<times> world" where
  "detect_by_ioctl_probe s =
     (case syscall (Ioctl_disp DE1_CMD_HDMI_GET_HPD [Val 0, Val 0, Val 0, Val 0]) s of
        (r1, s1) \<Rightarrow>
          if r_ret r1 \<ge> 0 \<or> r_errno r1 \<noteq> ENOTTY then (DE_VERSION_1, s1)
          else
            (case syscall (Ioctl_disp DE2_CMD_HDMI_SUPPORT_MODE
                             [Val 0, Val DISP_TV_MOD_720P_60HZ, Val 0, Val 0]) s1 of
               (r2, s2) \<Rightarrow>
                 if r_ret r2 \<ge> 0 \<or> r_errno r2 \<noteq> ENOTTY then (DE_VERSION_2, s2)
                 else (DE_VERSION_UNKNOWN, s2)))"

definition detect_de_version :: "world \<Rightarrow> de_version_t \<times> world" where
  "detect_de_version s =
     (case detect_soc_from_cpuinfo s of
        (ver, s1) \<Rightarrow>
          if ver \<noteq> DE_VERSION_UNKNOWN then (ver, s1)
          else
            (case detect_by_ioctl_probe s1 of
               (ver2, s2) \<Rightarrow>
                 if ver2 \<noteq> DE_VERSION_UNKNOWN then (ver2, s2)
                 else (DE_VERSION_1, s2)))"

section \<open>Device open and the ioctl wrapper\<close>

definition disp_open :: "world \<Rightarrow> int \<times> world" where
  "disp_open s =
     (if g_disp_fd s \<ge> 0 then (0, s)
      else
        (case syscall Open_disp s of
           (r, s1) \<Rightarrow>
             let s2 = s1\<lparr>g_disp_fd := r_ret r\<rparr> in
             if g_disp_fd s2 < 0 then (- 1, s2)
             else
               (case detect_de_version s2 of
                  (ver, s3) \<Rightarrow> (0, s3\<lparr>g_de_version := ver\<rparr>))))"

definition disp_close :: "world \<Rightarrow> world" where
  "disp_close s = (if g_disp_fd s \<ge> 0 then s\<lparr>g_disp_fd := - 1\<rparr> else s)"

text \<open>
  \<open>disp_ioctl\<close> returns \<open>-1\<close> without a call when the device is not open.
  \<open>disp_ioctl_resp\<close> is the same function keeping the whole answer, for the one caller
  that reads a structure the driver filled.
\<close>

definition disp_ioctl_resp :: "nat \<Rightarrow> ioarg list \<Rightarrow> world \<Rightarrow> resp option \<times> world" where
  "disp_ioctl_resp cmd args s =
     (if g_disp_fd s < 0 then (None, s)
      else (case syscall (Ioctl_disp cmd args) s of (r, s1) \<Rightarrow> (Some r, s1)))"

definition disp_ioctl :: "nat \<Rightarrow> ioarg list \<Rightarrow> world \<Rightarrow> int \<times> world" where
  "disp_ioctl cmd args s =
     (case disp_ioctl_resp cmd args s of
        (None, s1) \<Rightarrow> (- 1, s1)
      | (Some r, s1) \<Rightarrow> (r_ret r, s1))"


section \<open>DE1 (A10/A20) backend\<close>

text \<open>
  An output pointer (\<open>uint32_t *width\<close>) is a value passed in and returned: what the
  caller's variable held before the call, and what it holds after.
\<close>

definition de1_get_screen_size :: "u32 \<times> u32 \<Rightarrow> world \<Rightarrow> (int \<times> u32 \<times> u32) \<times> world" where
  "de1_get_screen_size wh s =
     (case disp_ioctl DE1_CMD_SCN_GET_WIDTH [Val (g_screen s), Val 0, Val 0, Val 0] s of
        (ret, s1) \<Rightarrow>
          if ret < 0 then ((- 1, wh), s1)
          else
            (case disp_ioctl DE1_CMD_SCN_GET_HEIGHT [Val (g_screen s1), Val 0, Val 0, Val 0] s1 of
               (ret2, s2) \<Rightarrow>
                 if ret2 < 0 then ((- 1, word_of_int ret, snd wh), s2)
                 else ((0, word_of_int ret, word_of_int ret2), s2)))"

definition de1_get_output_type :: "world \<Rightarrow> int \<times> world" where
  "de1_get_output_type s =
     disp_ioctl DE1_CMD_GET_OUTPUT_TYPE [Val (g_screen s), Val 0, Val 0, Val 0] s"

definition de1_hdmi_get_hpd :: "world \<Rightarrow> int \<times> world" where
  "de1_hdmi_get_hpd s =
     disp_ioctl DE1_CMD_HDMI_GET_HPD [Val (g_screen s), Val 0, Val 0, Val 0] s"

definition de1_hdmi_mode_supported :: "u32 \<Rightarrow> world \<Rightarrow> int \<times> world" where
  "de1_hdmi_mode_supported md s =
     (case disp_ioctl DE1_CMD_HDMI_SUPPORT_MODE [Val (g_screen s), Val md, Val 0, Val 0] s of
        (ret, s1) \<Rightarrow> (if ret > 0 then 1 else 0, s1))"

definition de1_hdmi_get_mode :: "world \<Rightarrow> u32 \<times> world" where
  "de1_hdmi_get_mode s =
     (case disp_ioctl DE1_CMD_HDMI_GET_MODE [Val (g_screen s), Val 0, Val 0, Val 0] s of
        (ret, s1) \<Rightarrow> (if ret < 0 then - 1 else word_of_int ret, s1))"

definition de1_hdmi_off :: "world \<Rightarrow> int \<times> world" where
  "de1_hdmi_off s = disp_ioctl DE1_CMD_HDMI_OFF [Val (g_screen s), Val 0, Val 0, Val 0] s"

definition de1_hdmi_on :: "world \<Rightarrow> int \<times> world" where
  "de1_hdmi_on s = disp_ioctl DE1_CMD_HDMI_ON [Val (g_screen s), Val 0, Val 0, Val 0] s"

definition de1_hdmi_set_mode :: "u32 \<Rightarrow> world \<Rightarrow> int \<times> world" where
  "de1_hdmi_set_mode md s =
     disp_ioctl DE1_CMD_HDMI_SET_MODE [Val (g_screen s), Val md, Val 0, Val 0] s"

text \<open>
  \<open>!g_force && !de1_hdmi_mode_supported(mode)\<close>: the support query is only made when
  \<open>g_force\<close> is 0.
\<close>

definition de1_hdmi_init :: "u32 \<Rightarrow> world \<Rightarrow> int \<times> world" where
  "de1_hdmi_init md s =
     (case (if g_force s \<noteq> 0 then (False, s)
            else (case de1_hdmi_mode_supported md s of (supp, s1) \<Rightarrow> (supp = 0, s1))) of
        (reject, s1) \<Rightarrow>
          if reject then (- 1, s1)
          else
            (case de1_hdmi_off s1 of
               (_, s2) \<Rightarrow>
                 (case de1_hdmi_set_mode md s2 of
                    (r, s3) \<Rightarrow> if r < 0 then (- 1, s3) else de1_hdmi_on s3)))"

definition de1_fb_release :: "u32 \<Rightarrow> world \<Rightarrow> int \<times> world" where
  "de1_fb_release fb_id s = disp_ioctl DE1_CMD_FB_RELEASE [Val fb_id, Val 0, Val 0, Val 0] s"

definition de1_fb_request :: "u32 \<Rightarrow> de1_fb_create_para_t \<Rightarrow> world \<Rightarrow> int \<times> world" where
  "de1_fb_request fb_id para s =
     disp_ioctl DE1_CMD_FB_REQUEST [Val fb_id, Ptr_para para, Val 0, Val 0] s"

definition de1_setup_fb_with_scaling ::
  "u32 \<Rightarrow> u32 \<Rightarrow> u32 \<Rightarrow> u32 \<Rightarrow> u32 \<Rightarrow> int \<Rightarrow> world \<Rightarrow> int \<times> world" where
  "de1_setup_fb_with_scaling fb_id fb_w fb_h scn_w scn_h depth s =
     (let needs_scaling = (fb_w \<noteq> scn_w \<or> fb_h \<noteq> scn_h) in
      case de1_fb_release fb_id s of
        (_, s1) \<Rightarrow>
          let para = zero_para
                \<lparr>p_fb_mode := DE1_FB_MODE_SCREEN0,
                 p_mode := (if needs_scaling then DE1_LAYER_WORK_MODE_SCALER
                            else DE1_LAYER_WORK_MODE_NORMAL),
                 p_buffer_num := 1,
                 p_width := fb_w,
                 p_height := fb_h,
                 p_output_width := scn_w,
                 p_output_height := scn_h,
                 p_primary_screen_id := g_screen s1\<rparr>
          in
          (case de1_fb_request fb_id para s1 of
             (r, s2) \<Rightarrow> if r < 0 then (- 1, s2) else (0, s2)))"

section \<open>DE2 (H3/H5/A64) backend\<close>

definition de2_get_screen_size :: "u32 \<times> u32 \<Rightarrow> world \<Rightarrow> (int \<times> u32 \<times> u32) \<times> world" where
  "de2_get_screen_size wh s =
     (case disp_ioctl DE2_CMD_GET_SCN_WIDTH [Val (g_screen s), Val 0, Val 0, Val 0] s of
        (ret, s1) \<Rightarrow>
          if ret < 0 then ((- 1, wh), s1)
          else
            (case disp_ioctl DE2_CMD_GET_SCN_HEIGHT [Val (g_screen s1), Val 0, Val 0, Val 0] s1 of
               (ret2, s2) \<Rightarrow>
                 if ret2 < 0 then ((- 1, word_of_int ret, snd wh), s2)
                 else ((0, word_of_int ret, word_of_int ret2), s2)))"

definition de2_get_output_type :: "world \<Rightarrow> int \<times> world" where
  "de2_get_output_type s =
     disp_ioctl DE2_CMD_GET_OUTPUT_TYPE [Val (g_screen s), Val 0, Val 0, Val 0] s"

definition de2_hdmi_mode_supported :: "u32 \<Rightarrow> world \<Rightarrow> int \<times> world" where
  "de2_hdmi_mode_supported md s =
     (case disp_ioctl DE2_CMD_HDMI_SUPPORT_MODE [Val (g_screen s), Val md, Val 0, Val 0] s of
        (ret, s1) \<Rightarrow> (if ret > 0 then 1 else 0, s1))"

definition de2_hdmi_get_hpd :: "world \<Rightarrow> int \<times> world" where
  "de2_hdmi_get_hpd s =
     (case syscall Read_hdmi_state s of
        (r, s1) \<Rightarrow> (case r_state r of Some state \<Rightarrow> (state, s1) | None \<Rightarrow> (- 1, s1)))"

definition de2_hdmi_get_mode :: "world \<Rightarrow> u32 \<times> world" where
  "de2_hdmi_get_mode s =
     (case disp_ioctl_resp DE2_CMD_GET_OUTPUT [Val (g_screen s), Ptr_output, Val 0, Val 0] s of
        (None, s1) \<Rightarrow> (- 1, s1)
      | (Some r, s1) \<Rightarrow> if r_ret r < 0 then (- 1, s1) else (r_out_mode r, s1))"

definition de2_device_switch :: "u32 \<Rightarrow> u32 \<Rightarrow> world \<Rightarrow> int \<times> world" where
  "de2_device_switch type md s =
     disp_ioctl DE2_CMD_DEVICE_SWITCH [Val (g_screen s), Val type, Val md, Val 0] s"

definition de2_hdmi_init :: "u32 \<Rightarrow> world \<Rightarrow> int \<times> world" where
  "de2_hdmi_init md s =
     (case (if g_force s \<noteq> 0 then (False, s)
            else (case de2_hdmi_mode_supported md s of (supp, s1) \<Rightarrow> (supp = 0, s1))) of
        (reject, s1) \<Rightarrow>
          if reject then (- 1, s1)
          else de2_device_switch DISP_OUTPUT_TYPE_HDMI md s1)"

definition de2_hdmi_off :: "world \<Rightarrow> int \<times> world" where
  "de2_hdmi_off s = de2_device_switch DISP_OUTPUT_TYPE_NONE 0 s"

text \<open>
  The colour format both \<open>de2_setup_fb_with_scaling\<close> and \<open>fb_configure\<close> write for the
  depth; any other depth leaves the four bit fields as they were read.
\<close>

definition set_color_format :: "int \<Rightarrow> fb_var_screeninfo \<Rightarrow> fb_var_screeninfo" where
  "set_color_format depth v =
     (if depth = 16 then
        v\<lparr>red := \<lparr>bf_offset = 11, bf_length = 5\<rparr>,
          green := \<lparr>bf_offset = 5, bf_length = 6\<rparr>,
          blue := \<lparr>bf_offset = 0, bf_length = 5\<rparr>,
          transp := \<lparr>bf_offset = 0, bf_length = 0\<rparr>\<rparr>
      else if depth = 24 \<or> depth = 32 then
        v\<lparr>red := \<lparr>bf_offset = 16, bf_length = 8\<rparr>,
          green := \<lparr>bf_offset = 8, bf_length = 8\<rparr>,
          blue := \<lparr>bf_offset = 0, bf_length = 8\<rparr>,
          transp := \<lparr>bf_offset = (if depth = 32 then 24 else 0),
                     bf_length = (if depth = 32 then 8 else 0)\<rparr>\<rparr>
      else v)"

definition de2_setup_fb_with_scaling ::
  "u32 \<Rightarrow> u32 \<Rightarrow> u32 \<Rightarrow> u32 \<Rightarrow> u32 \<Rightarrow> int \<Rightarrow> world \<Rightarrow> int \<times> world" where
  "de2_setup_fb_with_scaling fb_id fb_w fb_h scn_w scn_h depth s =
     (case syscall Open_fb_rdwr s of
        (ro, s1) \<Rightarrow>
          if r_ret ro < 0 then (- 1, s1)
          else
            (case syscall Fbioget_vscreeninfo s1 of
               (rg, s2) \<Rightarrow>
                 if r_ret rg < 0 then (- 1, s2)
                 else
                   let vinfo = r_vinfo rg in
                   if xres vinfo \<noteq> fb_w \<or> yres vinfo \<noteq> fb_h \<or>
                      bits_per_pixel vinfo \<noteq> word_of_int depth
                   then
                     let vinfo' = set_color_format depth
                           (vinfo\<lparr>xres := fb_w, yres := fb_h, xres_virtual := fb_w,
                                  yres_virtual := fb_h * 2,
                                  bits_per_pixel := word_of_int depth\<rparr>)
                     in
                     (case syscall (Fbioput_vscreeninfo vinfo') s2 of
                        (rp, s3) \<Rightarrow> if r_ret rp < 0 then (- 1, s3) else (0, s3))
                   else (0, s2)))"


section \<open>Unified API\<close>

definition get_screen_size :: "u32 \<times> u32 \<Rightarrow> world \<Rightarrow> (int \<times> u32 \<times> u32) \<times> world" where
  "get_screen_size wh s =
     (case g_de_version s of
        DE_VERSION_1 \<Rightarrow> de1_get_screen_size wh s
      | DE_VERSION_2 \<Rightarrow> de2_get_screen_size wh s
      | DE_VERSION_UNKNOWN \<Rightarrow> ((- 1, wh), s))"

definition get_output_type :: "world \<Rightarrow> int \<times> world" where
  "get_output_type s =
     (case g_de_version s of
        DE_VERSION_1 \<Rightarrow> de1_get_output_type s
      | DE_VERSION_2 \<Rightarrow> de2_get_output_type s
      | DE_VERSION_UNKNOWN \<Rightarrow> (- 1, s))"

definition hdmi_get_hpd :: "world \<Rightarrow> int \<times> world" where
  "hdmi_get_hpd s =
     (case syscall Read_hdmi_state s of
        (r, s1) \<Rightarrow>
          (case r_state r of
             Some state \<Rightarrow> (state, s1)
           | None \<Rightarrow>
               (case g_de_version s1 of
                  DE_VERSION_1 \<Rightarrow> de1_hdmi_get_hpd s1
                | DE_VERSION_2 \<Rightarrow> de2_hdmi_get_hpd s1
                | DE_VERSION_UNKNOWN \<Rightarrow> (- 1, s1))))"

definition hdmi_mode_supported :: "u32 \<Rightarrow> world \<Rightarrow> int \<times> world" where
  "hdmi_mode_supported md s =
     (case g_de_version s of
        DE_VERSION_1 \<Rightarrow> de1_hdmi_mode_supported md s
      | DE_VERSION_2 \<Rightarrow> de2_hdmi_mode_supported md s
      | DE_VERSION_UNKNOWN \<Rightarrow> (0, s))"

definition hdmi_get_mode :: "world \<Rightarrow> u32 \<times> world" where
  "hdmi_get_mode s =
     (case g_de_version s of
        DE_VERSION_1 \<Rightarrow> de1_hdmi_get_mode s
      | DE_VERSION_2 \<Rightarrow> de2_hdmi_get_mode s
      | DE_VERSION_UNKNOWN \<Rightarrow> (- 1, s))"

definition hdmi_init :: "u32 \<Rightarrow> world \<Rightarrow> int \<times> world" where
  "hdmi_init md s =
     (case g_de_version s of
        DE_VERSION_1 \<Rightarrow> de1_hdmi_init md s
      | DE_VERSION_2 \<Rightarrow> de2_hdmi_init md s
      | DE_VERSION_UNKNOWN \<Rightarrow> (- 1, s))"

text \<open>\<open>(int)mode <= 0\<close> reads the 32-bit mode as a signed value.\<close>

definition hdmi_on :: "world \<Rightarrow> int \<times> world" where
  "hdmi_on s =
     (case g_de_version s of
        DE_VERSION_1 \<Rightarrow>
          (case de1_hdmi_on s of
             (ret, s1) \<Rightarrow>
               if ret < 0 then
                 let saved_force = g_force s1 in
                 (case de1_hdmi_init DEFAULT_HDMI_MODE (s1\<lparr>g_force := 1\<rparr>) of
                    (ret2, s2) \<Rightarrow> (ret2, s2\<lparr>g_force := saved_force\<rparr>))
               else (ret, s1))
      | DE_VERSION_2 \<Rightarrow>
          (case hdmi_get_mode s of
             (md, s1) \<Rightarrow>
               let md' = (if sint md \<le> 0 \<or> md = DISP_TV_MOD_480I \<or> md = DISP_TV_MOD_576I
                          then DEFAULT_HDMI_MODE else md);
                   saved_force = g_force s1
               in
               (case de2_hdmi_init md' (s1\<lparr>g_force := 1\<rparr>) of
                  (ret, s2) \<Rightarrow> (ret, s2\<lparr>g_force := saved_force\<rparr>)))
      | DE_VERSION_UNKNOWN \<Rightarrow> (- 1, s))"

definition hdmi_off :: "world \<Rightarrow> int \<times> world" where
  "hdmi_off s =
     (case g_de_version s of
        DE_VERSION_1 \<Rightarrow> de1_hdmi_off s
      | DE_VERSION_2 \<Rightarrow> de2_hdmi_off s
      | DE_VERSION_UNKNOWN \<Rightarrow> (- 1, s))"

definition setup_fb_with_scaling ::
  "u32 \<Rightarrow> u32 \<Rightarrow> u32 \<Rightarrow> u32 \<Rightarrow> u32 \<Rightarrow> int \<Rightarrow> world \<Rightarrow> int \<times> world" where
  "setup_fb_with_scaling fb_id fb_w fb_h scn_w scn_h depth s =
     (case g_de_version s of
        DE_VERSION_1 \<Rightarrow> de1_setup_fb_with_scaling fb_id fb_w fb_h scn_w scn_h depth s
      | DE_VERSION_2 \<Rightarrow> de2_setup_fb_with_scaling fb_id fb_w fb_h scn_w scn_h depth s
      | DE_VERSION_UNKNOWN \<Rightarrow> (- 1, s))"

section \<open>Framebuffer configuration through fbdev\<close>

definition fb_configure :: "u32 \<Rightarrow> u32 \<Rightarrow> int \<Rightarrow> world \<Rightarrow> int \<times> world" where
  "fb_configure w h depth s =
     (case syscall Open_fb_rdwr s of
        (ro, s0) \<Rightarrow>
          let s1 = s0\<lparr>g_fb_fd := r_ret ro\<rparr> in
          if g_fb_fd s1 < 0 then (- 1, s1)
          else
            (case syscall Fbioget_vscreeninfo s1 of
               (rg, s2) \<Rightarrow>
                 if r_ret rg < 0 then (- 1, s2\<lparr>g_fb_fd := - 1\<rparr>)
                 else
                   let vinfo = set_color_format depth
                         ((r_vinfo rg)\<lparr>xres := w, yres := h, xres_virtual := w,
                                        yres_virtual := h,
                                        bits_per_pixel := word_of_int depth\<rparr>)
                   in
                   (case syscall (Fbioput_vscreeninfo vinfo) s2 of
                      (rp, s3) \<Rightarrow>
                        if r_ret rp < 0 then (- 1, s3\<lparr>g_fb_fd := - 1\<rparr>)
                        else
                          (case syscall Fbioget_fscreeninfo s3 of
                             (rf, s4) \<Rightarrow>
                               if r_ret rf < 0 then (- 1, s4\<lparr>g_fb_fd := - 1\<rparr>)
                               else (0, s4)))))"

text \<open>
  \<open>get_fb_info(vinfo, finfo)\<close>: each pointer may be \<open>NULL\<close> (\<open>want_v\<close>, \<open>want_f\<close> say
  which are not); \<open>v\<close> is the caller's \<open>vinfo\<close> before the call.
\<close>

definition get_fb_info ::
  "bool \<Rightarrow> bool \<Rightarrow> fb_var_screeninfo \<Rightarrow> world \<Rightarrow> (int \<times> fb_var_screeninfo) \<times> world" where
  "get_fb_info want_v want_f v s =
     (case syscall Open_fb_rdonly s of
        (ro, s1) \<Rightarrow>
          if r_ret ro < 0 then ((- 1, v), s1)
          else
            (case (if want_v
                   then (case syscall Fbioget_vscreeninfo s1 of
                           (rg, s2) \<Rightarrow> (r_ret rg < 0, if r_ret rg < 0 then v else r_vinfo rg, s2))
                   else (False, v, s1)) of
               (failed_v, v1, s2) \<Rightarrow>
                 if failed_v then ((- 1, v1), s2)
                 else
                   (case (if want_f
                          then (case syscall Fbioget_fscreeninfo s2 of
                                  (rf, s3) \<Rightarrow> (r_ret rf < 0, s3))
                          else (False, s2)) of
                      (failed_f, s3) \<Rightarrow>
                        if failed_f then ((- 1, v1), s3) else ((0, v1), s3))))"

text \<open>
  A local \<open>struct fb_var_screeninfo vinfo;\<close> before anything is stored in it. The
  program reads it only after \<open>FBIOGET_VSCREENINFO\<close> succeeded.
\<close>

definition uninit_bitfield :: fb_bitfield where
  "uninit_bitfield = \<lparr>bf_offset = 0, bf_length = 0\<rparr>"

definition uninit_vinfo :: fb_var_screeninfo where
  "uninit_vinfo =
     \<lparr>xres = 0, yres = 0, xres_virtual = 0, yres_virtual = 0, bits_per_pixel = 0,
      red = uninit_bitfield, green = uninit_bitfield, blue = uninit_bitfield,
      transp = uninit_bitfield\<rparr>"

section \<open>Information display\<close>

text \<open>The device calls of \<open>show_info\<close>, in order; what it prints is not modelled.\<close>

fun show_modes :: "mode_info_t list \<Rightarrow> world \<Rightarrow> world" where
  "show_modes [] s = s"
| "show_modes (m # ms) s =
     (if mi_name m = None then s
      else if g_de_version s = DE_VERSION_1 \<and> DISP_TV_MOD_3840_2160P_30HZ \<le> mi_mode m
      then show_modes ms s
      else (case hdmi_mode_supported (mi_mode m) s of (_, s1) \<Rightarrow> show_modes ms s1))"

definition show_info :: "world \<Rightarrow> world" where
  "show_info s =
     (case get_output_type s of
        (_, s1) \<Rightarrow>
          (case hdmi_get_hpd s1 of
             (_, s2) \<Rightarrow>
               (case hdmi_get_mode s2 of
                  (_, s3) \<Rightarrow>
                    (case get_screen_size (0, 0) s3 of
                       ((_, wh), s4) \<Rightarrow>
                         (case get_fb_info True True uninit_vinfo s4 of
                            ((r, _), s5) \<Rightarrow>
                              let s6 = (if r = 0 then snd (get_screen_size wh s5) else s5)
                              in show_modes mode_table s6)))))"


section \<open>Argument parsing\<close>

text \<open>
  The C library functions that read numbers out of the arguments are parameters of the
  model. \<open>atoi\<close> is \<open>atoi\<close>. \<open>strtol10 str\<close> is the value of \<open>strtol(str, &endptr, 10)\<close>
  and the text \<open>endptr\<close> points to. \<open>scan_uxu_at_u\<close> and \<open>scan_uxu\<close> are \<open>sscanf\<close> with the
  formats \<open>"%ux%u@%u"\<close> and \<open>"%ux%u"\<close>: the list of the values converted, in order, whose
  length is what \<open>sscanf\<close> returns (no value also when it returns \<open>EOF\<close>).
  \<open>scan_uxuxd\<close> is \<open>sscanf\<close> with \<open>"%ux%ux%d"\<close>: the three values when it returns 3.
\<close>

record libc =
  atoi :: "string \<Rightarrow> int"
  strtol10 :: "string \<Rightarrow> int \<times> string"
  scan_uxu_at_u :: "string \<Rightarrow> u32 list"
  scan_uxu :: "string \<Rightarrow> u32 list"
  scan_uxuxd :: "string \<Rightarrow> (u32 \<times> u32 \<times> int) option"

text \<open>
  \<open>parse_resolution\<close>: \<open>Some (width, height, refresh)\<close> for the return value 0, \<open>None\<close>
  for \<open>-1\<close>. The refresh is set to 0 before the first \<open>sscanf\<close> and stays 0 unless a
  third value is converted.
\<close>

definition parse_resolution :: "libc \<Rightarrow> string \<Rightarrow> (u32 \<times> u32 \<times> u32) option" where
  "parse_resolution lc str =
     (let r = scan_uxu_at_u lc str in
      if length r \<ge> 2 then Some (r ! 0, r ! 1, if length r \<ge> 3 then r ! 2 else 0)
      else
        let r2 = scan_uxu lc str in
        if length r2 = 2 then Some (r2 ! 0, r2 ! 1, 0) else None)"

definition parse_resolution_depth :: "libc \<Rightarrow> string \<Rightarrow> (u32 \<times> u32 \<times> int) option" where
  "parse_resolution_depth lc str = scan_uxuxd lc str"

section \<open>Main\<close>

text \<open>
  The option loop of \<open>main\<close>, on the arguments from \<open>argv[arg_start]\<close> on. \<open>Inl code\<close>
  is \<open>return code\<close> out of the loop; \<open>Inr rest\<close> is the loop ending with \<open>rest\<close> the
  arguments from \<open>argv[arg_start]\<close> on.
\<close>

fun parse_options :: "libc \<Rightarrow> string list \<Rightarrow> world \<Rightarrow> (int + string list) \<times> world" where
  "parse_options lc [] s = (Inr [], s)"
| "parse_options lc (a # as) s =
     (if a \<noteq> [] \<and> hd a = CHR ''-'' then
        if a = ''-v'' then parse_options lc as (s\<lparr>g_verbose := 1\<rparr>)
        else if a = ''-f'' then parse_options lc as (s\<lparr>g_force := 1\<rparr>)
        else if a = ''-s'' \<and> as \<noteq> [] then
          let s1 = s\<lparr>g_screen := word_of_int (atoi lc (hd as))\<rparr> in
          if g_screen s1 > 1 then (Inl 1, s1) else parse_options lc (tl as) s1
        else if a = ''-h'' \<or> a = ''--help'' then (Inl 0, s)
        else (Inl 1, s)
      else (Inr (a # as), s))"

text \<open>
  The branches of the command chain of \<open>main\<close>; \<open>rest\<close> is \<open>argv\<close> from \<open>arg_start\<close> on,
  so \<open>rest ! k\<close> is \<open>argv[arg_start + k]\<close> and \<open>length rest \<ge> n\<close> is
  \<open>orig_argc >= arg_start + n\<close>. Each returns the value of \<open>ret\<close> at \<open>done:\<close>.
\<close>

definition cmd_hdmi_mode :: "libc \<Rightarrow> string \<Rightarrow> world \<Rightarrow> int \<times> world" where
  "cmd_hdmi_mode lc mode_arg s =
     (case strtol10 lc mode_arg of
        (mode_num, endptr) \<Rightarrow>
          (case (if endptr = [] \<and> mode_num \<ge> 0 \<and> mode_num < DISP_TV_MODE_NUM
                 then
                   (case get_mode_info (word_of_int mode_num) of
                      None \<Rightarrow>
                        (case hdmi_init (word_of_int mode_num) s of
                           (r, s1) \<Rightarrow> (None, r, s1))
                    | Some i \<Rightarrow> (Some i, 0, s))
                 else (find_mode_by_name mode_arg, 0, s)) of
             (info, ret, s1) \<Rightarrow>
               (case info of
                  Some i \<Rightarrow> hdmi_init (mi_mode (mode_table ! i)) s1
                | None \<Rightarrow> if endptr \<noteq> [] then (1, s1) else (ret, s1))))"

definition cmd_hdmi_init :: "libc \<Rightarrow> string \<Rightarrow> world \<Rightarrow> int \<times> world" where
  "cmd_hdmi_init lc res_arg s =
     (case parse_resolution lc res_arg of
        Some (w, h, refresh) \<Rightarrow>
          (case find_mode_by_resolution w h refresh of
             Some i \<Rightarrow> hdmi_init (mi_mode (mode_table ! i)) s
           | None \<Rightarrow> (1, s))
      | None \<Rightarrow> (1, s))"

definition cmd_hdmi :: "libc \<Rightarrow> string list \<Rightarrow> world \<Rightarrow> int \<times> world" where
  "cmd_hdmi lc rest s =
     (if rest ! 1 = ''on'' then
        (case hdmi_on s of
           (ret, s1) \<Rightarrow>
             if ret = 0 then (case hdmi_get_mode s1 of (_, s2) \<Rightarrow> (ret, s2))
             else (ret, s1))
      else if rest ! 1 = ''off'' then hdmi_off s
      else if rest ! 1 = ''mode'' \<and> length rest \<ge> 3 then cmd_hdmi_mode lc (rest ! 2) s
      else if rest ! 1 = ''init'' \<and> length rest \<ge> 3 then cmd_hdmi_init lc (rest ! 2) s
      else (1, s))"

definition cmd_fb :: "libc \<Rightarrow> string list \<Rightarrow> world \<Rightarrow> int \<times> world" where
  "cmd_fb lc rest s =
     (if rest ! 1 = ''set'' then
        (case parse_resolution_depth lc (rest ! 2) of
           Some (w, h, depth) \<Rightarrow> fb_configure w h depth s
         | None \<Rightarrow> (1, s))
      else (1, s))"

definition cmd_scale :: "libc \<Rightarrow> string list \<Rightarrow> world \<Rightarrow> int \<times> world" where
  "cmd_scale lc rest s =
     (case parse_resolution lc (rest ! 1) of
        None \<Rightarrow> (1, s)
      | Some (fb_width, fb_height, _) \<Rightarrow>
          (case parse_resolution lc (rest ! 2) of
             None \<Rightarrow> (1, s)
           | Some (scn_width, scn_height, _) \<Rightarrow>
               let depth = atoi lc (rest ! 3) in
               if depth \<noteq> 16 \<and> depth \<noteq> 24 \<and> depth \<noteq> 32 then (1, s)
               else setup_fb_with_scaling 0 fb_width fb_height scn_width scn_height depth s))"

text \<open>\<open>depth = vinfo.bits_per_pixel\<close> stores an unsigned 32-bit value in an \<open>int\<close>.\<close>

definition cmd_autoscale :: "libc \<Rightarrow> string list \<Rightarrow> world \<Rightarrow> int \<times> world" where
  "cmd_autoscale lc rest s =
     (case get_fb_info True False uninit_vinfo s of
        ((rf, vinfo), s1) \<Rightarrow>
          if rf < 0 then (1, s1)
          else
            (case get_screen_size (0, 0) s1 of
               ((rs, scn_width, scn_height), s2) \<Rightarrow>
                 if rs < 0 then (1, s2)
                 else
                   let depth = (if 1 < length rest then atoi lc (rest ! 1)
                                else sint (bits_per_pixel vinfo)) in
                   if 1 < length rest \<and> depth \<noteq> 16 \<and> depth \<noteq> 24 \<and> depth \<noteq> 32 then (1, s2)
                   else if xres vinfo = scn_width \<and> yres vinfo = scn_height then (0, s2)
                   else if g_de_version s2 = DE_VERSION_2 then (0, s2)
                   else setup_fb_with_scaling 0 (xres vinfo) (yres vinfo)
                          scn_width scn_height depth s2))"

definition cmd_noscale :: "libc \<Rightarrow> string list \<Rightarrow> world \<Rightarrow> int \<times> world" where
  "cmd_noscale lc rest s =
     (case get_screen_size (0, 0) s of
        ((rs, scn_width, scn_height), s1) \<Rightarrow>
          if rs < 0 then (1, s1)
          else if 1 < length rest then
            let depth = atoi lc (rest ! 1) in
            if depth \<noteq> 16 \<and> depth \<noteq> 24 \<and> depth \<noteq> 32 then (1, s1)
            else setup_fb_with_scaling 0 scn_width scn_height scn_width scn_height depth s1
          else
            (case get_fb_info True False uninit_vinfo s1 of
               ((rf, vinfo), s2) \<Rightarrow>
                 let depth = (if rf = 0 then sint (bits_per_pixel vinfo) else 32) in
                 setup_fb_with_scaling 0 scn_width scn_height scn_width scn_height depth s2))"

definition run_command :: "libc \<Rightarrow> string list \<Rightarrow> world \<Rightarrow> int \<times> world" where
  "run_command lc rest s =
     (if rest ! 0 = ''info'' then (0, show_info s)
      else if rest ! 0 = ''debug'' then (0, s)
      else if rest ! 0 = ''hdmi'' \<and> length rest \<ge> 2 then cmd_hdmi lc rest s
      else if rest ! 0 = ''fb'' \<and> length rest \<ge> 3 then cmd_fb lc rest s
      else if rest ! 0 = ''scale'' \<and> length rest \<ge> 4 then cmd_scale lc rest s
      else if rest ! 0 = ''autoscale'' then cmd_autoscale lc rest s
      else if rest ! 0 = ''noscale'' then cmd_noscale lc rest s
      else (1, s))"

text \<open>
  \<open>main\<close>: the value it returns and the state it leaves. \<open>argv\<close> holds \<open>argc\<close> strings.
  At \<open>done:\<close> the descriptors are closed.
\<close>

definition main :: "libc \<Rightarrow> string list \<Rightarrow> world \<Rightarrow> int \<times> world" where
  "main lc argv s =
     (if length argv < 2 then (1, s)
      else
        (case parse_options lc (tl argv) s of
           (Inl code, s1) \<Rightarrow> (code, s1)
         | (Inr rest, s1) \<Rightarrow>
             if rest = [] then (1, s1)
             else
               (case disp_open s1 of
                  (r, s2) \<Rightarrow>
                    if r < 0 then (1, s2)
                    else
                      (case run_command lc rest s2 of
                         (ret, s3) \<Rightarrow> (ret, disp_close s3)))))"



section \<open>The scaled framebuffer setup of a20\_hdmi\_fb.c\<close>

text \<open>
  The repository's A20-only program has the same operation, \<open>setup_fb_with_scaling\<close>,
  with the same globals and the same \<open>disp_ioctl\<close> wrapper. It checks its arguments
  before the first call. Its \<open>fb_request\<close> also returns \<open>-1\<close> for a \<open>NULL\<close> parameter
  pointer, which \<open>setup_fb_with_scaling\<close> never passes.
\<close>

definition DISP_CMD_FB_REQUEST :: nat where "DISP_CMD_FB_REQUEST = 0x280"
definition DISP_CMD_FB_RELEASE :: nat where "DISP_CMD_FB_RELEASE = 0x281"

definition a20_fb_release :: "u32 \<Rightarrow> world \<Rightarrow> int \<times> world" where
  "a20_fb_release fb_id s = disp_ioctl DISP_CMD_FB_RELEASE [Val fb_id, Val 0, Val 0, Val 0] s"

definition a20_fb_request :: "u32 \<Rightarrow> de1_fb_create_para_t \<Rightarrow> world \<Rightarrow> int \<times> world" where
  "a20_fb_request fb_id para s =
     disp_ioctl DISP_CMD_FB_REQUEST [Val fb_id, Ptr_para para, Val 0, Val 0] s"

definition a20_setup_fb_with_scaling ::
  "u32 \<Rightarrow> u32 \<Rightarrow> u32 \<Rightarrow> u32 \<Rightarrow> u32 \<Rightarrow> int \<Rightarrow> world \<Rightarrow> int \<times> world" where
  "a20_setup_fb_with_scaling fb_id fb_width fb_height scn_width scn_height depth s =
     (let needs_scaling = (fb_width \<noteq> scn_width \<or> fb_height \<noteq> scn_height) in
      if g_disp_fd s < 0 then (- 1, s)
      else if fb_width = 0 \<or> fb_height = 0 then (- 1, s)
      else if scn_width = 0 \<or> scn_height = 0 then (- 1, s)
      else if depth \<noteq> 16 \<and> depth \<noteq> 24 \<and> depth \<noteq> 32 then (- 1, s)
      else
        (case a20_fb_release fb_id s of
           (_, s1) \<Rightarrow>
             let fb_para = zero_para
                   \<lparr>p_fb_mode := 0,
                    p_mode := (if needs_scaling then 4 else 0),
                    p_buffer_num := 1,
                    p_width := fb_width,
                    p_height := fb_height,
                    p_output_width := scn_width,
                    p_output_height := scn_height,
                    p_primary_screen_id := g_screen s1\<rparr>
             in
             (case a20_fb_request fb_id fb_para s1 of
                (ret, s2) \<Rightarrow> if ret < 0 then (- 1, s2) else (0, s2))))"

section \<open>Process start and example environments\<close>

text \<open>The globals as their initialisers set them, before \<open>main\<close> runs, in environment \<open>D\<close>.\<close>

definition init_world :: "(dcall list \<Rightarrow> dcall \<Rightarrow> resp) \<Rightarrow> world" where
  "init_world D =
     \<lparr>g_de_version = DE_VERSION_UNKNOWN, g_disp_fd = - 1, g_fb_fd = - 1, g_screen = 0,
      g_verbose = 0, g_force = 0, trace = [], driver = D\<rparr>"

text \<open>Concrete environments and library functions on which the theorems are run.\<close>

definition resp0 :: resp where
  "resp0 = \<lparr>r_ret = 0, r_errno = 0, r_out_mode = 0, r_vinfo = uninit_vinfo,
            r_text = None, r_state = None\<rparr>"

definition resp_ret :: "int \<Rightarrow> resp" where
  "resp_ret n = resp0\<lparr>r_ret := n\<rparr>"

definition resp_fail :: "int \<Rightarrow> resp" where
  "resp_fail e = resp0\<lparr>r_ret := - 1, r_errno := e\<rparr>"

text \<open>An A20 board whose driver accepts every command and reports a 1280x720 screen.\<close>

definition drv_a20_ok :: "dcall list \<Rightarrow> dcall \<Rightarrow> resp" where
  "drv_a20_ok h c =
     (case c of
        Read_cpuinfo \<Rightarrow> resp0\<lparr>r_text := Some ''Hardware : sun7i''\<rparr>
      | Open_disp \<Rightarrow> resp_ret 3
      | Ioctl_disp cmd args \<Rightarrow>
          if cmd = DE1_CMD_SCN_GET_WIDTH then resp_ret 1280
          else if cmd = DE1_CMD_SCN_GET_HEIGHT then resp_ret 720
          else resp_ret 0
      | _ \<Rightarrow> resp_ret 0)"

text \<open>An A20 board whose driver rejects every display command with \<open>EINVAL\<close>.\<close>

definition drv_a20_refuse :: "dcall list \<Rightarrow> dcall \<Rightarrow> resp" where
  "drv_a20_refuse h c =
     (case c of
        Read_cpuinfo \<Rightarrow> resp0\<lparr>r_text := Some ''Hardware : sun7i''\<rparr>
      | Open_disp \<Rightarrow> resp_ret 3
      | Ioctl_disp cmd args \<Rightarrow> resp_fail 22
      | _ \<Rightarrow> resp_ret 0)"

text \<open>An H3 board with a 1280x720 framebuffer at 32 bits per pixel.\<close>

definition vinfo_720p32 :: fb_var_screeninfo where
  "vinfo_720p32 = uninit_vinfo\<lparr>xres := 1280, yres := 720, xres_virtual := 1280,
                                yres_virtual := 1440, bits_per_pixel := 32\<rparr>"

definition drv_h3_ok :: "dcall list \<Rightarrow> dcall \<Rightarrow> resp" where
  "drv_h3_ok h c =
     (case c of
        Read_cpuinfo \<Rightarrow> resp0\<lparr>r_text := Some ''Hardware : sun8i''\<rparr>
      | Open_disp \<Rightarrow> resp_ret 3
      | Open_fb_rdwr \<Rightarrow> resp_ret 4
      | Open_fb_rdonly \<Rightarrow> resp_ret 4
      | Fbioget_vscreeninfo \<Rightarrow> resp0\<lparr>r_vinfo := vinfo_720p32\<rparr>
      | _ \<Rightarrow> resp_ret 0)"

text \<open>
  A board without \<open>/proc/cpuinfo\<close> whose driver does not know the DE1 hot-plug command
  and answers the DE2 mode-support command.
\<close>

definition drv_probe_de2 :: "dcall list \<Rightarrow> dcall \<Rightarrow> resp" where
  "drv_probe_de2 h c =
     (case c of
        Open_disp \<Rightarrow> resp_ret 3
      | Ioctl_disp cmd args \<Rightarrow>
          if cmd = DE1_CMD_HDMI_GET_HPD then resp_fail ENOTTY else resp_ret 0
      | _ \<Rightarrow> resp0)"


definition libc_stub :: libc where
  "libc_stub =
     \<lparr>atoi = (\<lambda>str. if str = ''8'' then 8 else if str = ''32'' then 32 else 0),
      strtol10 = (\<lambda>str. (0, str)),
      scan_uxu_at_u = (\<lambda>str. if str = ''0x0'' then [0, 0]
                              else if str = ''1280x720'' then [1280, 720] else []),
      scan_uxu = (\<lambda>str. if str = ''0x0'' then [0, 0]
                         else if str = ''1280x720'' then [1280, 720] else []),
      scan_uxuxd = (\<lambda>str. if str = ''640x480x8'' then Some (640, 480, 8) else None)\<rparr>"

section \<open>Notions used in the statements\<close>

text \<open>
  What \<open>strcasecmp\<close> compares: the bytes before the first NUL, each lowered.
\<close>

definition norm_c :: "string \<Rightarrow> string" where
  "norm_c s = map tolower_c (takeWhile (\<lambda>c. c \<noteq> NUL) s)"

text \<open>
  \<open>returned_by_last_ioctl D tr r\<close>: the last call of the trace \<open>tr\<close> is the DE1 HDMI
  enable or disable ioctl or the DE2 device-switch ioctl, and in environment \<open>D\<close> it
  returned \<open>r\<close>. \<open>passed_through (r, s)\<close>: the value \<open>r\<close> is 0, 1, -1 or was returned
  by such an ioctl, the last call of the run that ended in \<open>s\<close>.
\<close>

definition returned_by_last_ioctl :: "(dcall list \<Rightarrow> dcall \<Rightarrow> resp) \<Rightarrow> dcall list \<Rightarrow> int \<Rightarrow> bool" where
  "returned_by_last_ioctl D tr r =
     (tr \<noteq> [] \<and>
      (case last tr of
         Ioctl_disp cmd args \<Rightarrow>
           (cmd = DE1_CMD_HDMI_ON \<or> cmd = DE1_CMD_HDMI_OFF \<or> cmd = DE2_CMD_DEVICE_SWITCH) \<and>
           r = r_ret (D (butlast tr) (last tr))
       | _ \<Rightarrow> False))"

definition passed_through :: "int \<times> world \<Rightarrow> bool" where
  "passed_through x =
     (fst x = 0 \<or> fst x = 1 \<or> fst x = - 1 \<or>
      returned_by_last_ioctl (driver (snd x)) (trace (snd x)) (fst x))"

text \<open>
  The calls that only read the geometry: opening the framebuffer read-only, reading its
  variable screen information, and the screen width and height ioctls of either
  generation (command codes 8 and 9 on DE1, 7 and 8 on DE2).
\<close>

definition is_geometry_query :: "dcall \<Rightarrow> bool" where
  "is_geometry_query c =
     (case c of
        Open_fb_rdonly \<Rightarrow> True
      | Fbioget_vscreeninfo \<Rightarrow> True
      | Ioctl_disp cmd args \<Rightarrow>
          cmd = DE1_CMD_SCN_GET_WIDTH \<or> cmd = DE1_CMD_SCN_GET_HEIGHT \<or>
          cmd = DE2_CMD_GET_SCN_WIDTH \<or> cmd = DE2_CMD_GET_SCN_HEIGHT
      | _ \<Rightarrow> False)"


section \<open>The mode table lookups\<close>

lemma find_res_from_first:
  "find_res_from i ms w h 0 = Some j \<Longrightarrow>
     i \<le> j \<and> j - i < length ms \<and> mi_width (ms ! (j - i)) = w \<and> mi_height (ms ! (j - i)) = h \<and>
     (\<forall>k < j - i. \<not> (mi_width (ms ! k) = w \<and> mi_height (ms ! k) = h))"
proof (induction ms arbitrary: i)
  case Nil
  then show ?case by simp
next
  case (Cons m ms)
  show ?case
  proof (cases "mi_name m \<noteq> None \<and> \<not> (mi_width m = w \<and> mi_height m = h)")
    case True
    with Cons.prems have "find_res_from (Suc i) ms w h 0 = Some j" by (simp split: if_splits)
    from Cons.IH[OF this] have ih: "Suc i \<le> j" "j - Suc i < length ms"
      "mi_width (ms ! (j - Suc i)) = w" "mi_height (ms ! (j - Suc i)) = h"
      "\<forall>k < j - Suc i. \<not> (mi_width (ms ! k) = w \<and> mi_height (ms ! k) = h)" by auto
    from ih(1) have e: "j - i = Suc (j - Suc i)" by simp
    show ?thesis using ih True unfolding e
      by (auto simp: less_Suc_eq_0_disj)
  next
    case False
    with Cons.prems have "j = i" by (auto split: if_splits)
    with False Cons.prems show ?thesis by (auto split: if_splits)
  qed
qed

lemma find_res_from_exists:
  "k < length ms \<Longrightarrow> \<forall>n \<le> k. mi_name (ms ! n) \<noteq> None \<Longrightarrow>
   mi_width (ms ! k) = w \<Longrightarrow> mi_height (ms ! k) = h \<Longrightarrow>
   \<exists>j. find_res_from i ms w h 0 = Some j \<and> j \<le> i + k"
proof (induction ms arbitrary: i k)
  case Nil
  then show ?case by simp
next
  case (Cons m ms)
  show ?case
  proof (cases k)
    case 0
    with Cons.prems show ?thesis by auto
  next
    case (Suc k')
    from Cons.prems(2) have m: "mi_name m \<noteq> None" by force
    from Cons.prems(2) Suc have all: "\<forall>n \<le> k'. mi_name (ms ! n) \<noteq> None" by force
    from Cons.prems Suc have "k' < length ms" "mi_width (ms ! k') = w" "mi_height (ms ! k') = h" by auto
    from Cons.IH[OF this(1) all this(2,3), of "Suc i"] obtain j where
      "find_res_from (Suc i) ms w h 0 = Some j" "j \<le> Suc i + k'" by blast
    with m Suc show ?thesis by auto
  qed
qed

lemma table_length: "length mode_table = 17"
  by (simp add: mode_table_def)

lemma names_all: "list_all (\<lambda>m. mi_name m \<noteq> None) (take 16 mode_table)"
  by (simp add: mode_table_def mk_mode_def)

lemma names_before_sentinel: "n < 16 \<Longrightarrow> mi_name (mode_table ! n) \<noteq> None"
  using names_all table_length by (simp add: list_all_length)

text \<open>
  Claim C7. For every width and height that occur in an entry of the mode table (entries
  0 to 15; entry 16 is the terminating sentinel), \<open>find_mode_by_resolution\<close> with refresh 0
  returns an entry, that entry has the width and height asked for, and no entry before it
  in the table has them: it is the first match in table order. For 720x480 this is entry
  0, \<open>480i\<close>, which precedes \<open>480p\<close> (entry 2).
\<close>

theorem lookup_by_resolution_first_match:
  "i < 16 \<Longrightarrow>
     (\<exists>j. find_mode_by_resolution (mi_width (mode_table ! i)) (mi_height (mode_table ! i)) 0 = Some j
        \<and> j \<le> i \<and> mi_name (mode_table ! j) \<noteq> None
        \<and> mi_width (mode_table ! j) = mi_width (mode_table ! i)
        \<and> mi_height (mode_table ! j) = mi_height (mode_table ! i)
        \<and> (\<forall>k<j. \<not> (mi_width (mode_table ! k) = mi_width (mode_table ! i)
                    \<and> mi_height (mode_table ! k) = mi_height (mode_table ! i))))
   \<and> find_mode_by_resolution 720 480 0 = Some 0
   \<and> mi_name (mode_table ! 0) = Some ''480i'' \<and> mi_name (mode_table ! 2) = Some ''480p''"
proof -
  assume i: "i < 16"
  let ?w = "mi_width (mode_table ! i)" and ?h = "mi_height (mode_table ! i)"
  have "\<forall>n \<le> i. mi_name (mode_table ! n) \<noteq> None"
    using i names_before_sentinel by simp
  with i table_length find_res_from_exists[of i mode_table ?w ?h 0]
  obtain j where j: "find_res_from 0 mode_table ?w ?h 0 = Some j" "j \<le> i" by auto
  from find_res_from_first[OF j(1)] j(2) i names_before_sentinel[of j]
  have "\<exists>j. find_mode_by_resolution ?w ?h 0 = Some j
        \<and> j \<le> i \<and> mi_name (mode_table ! j) \<noteq> None
        \<and> mi_width (mode_table ! j) = ?w \<and> mi_height (mode_table ! j) = ?h
        \<and> (\<forall>k<j. \<not> (mi_width (mode_table ! k) = ?w \<and> mi_height (mode_table ! k) = ?h))"
    unfolding find_mode_by_resolution_def using j(1) by auto
  moreover have "find_mode_by_resolution 720 480 0 = Some 0"
    by (simp add: find_mode_by_resolution_def mode_table_def mk_mode_def)
  moreover have "mi_name (mode_table ! 0) = Some ''480i'' \<and> mi_name (mode_table ! 2) = Some ''480p''"
    by (simp add: mode_table_def mk_mode_def)
  ultimately show ?thesis by blast
qed

text \<open>
  The theorem at entry 2 (\<open>480p\<close>, 720x480).
\<close>

theorem lookup_by_resolution_first_match_witness:
  "(2::nat) < 16
   \<and> (\<exists>j. find_mode_by_resolution (mi_width (mode_table ! 2)) (mi_height (mode_table ! 2)) 0 = Some j
        \<and> j \<le> 2 \<and> mi_name (mode_table ! j) \<noteq> None
        \<and> mi_width (mode_table ! j) = mi_width (mode_table ! 2)
        \<and> mi_height (mode_table ! j) = mi_height (mode_table ! 2)
        \<and> (\<forall>k<j. \<not> (mi_width (mode_table ! k) = mi_width (mode_table ! 2)
                    \<and> mi_height (mode_table ! k) = mi_height (mode_table ! 2))))"
  using lookup_by_resolution_first_match [of 2] by simp

subsection \<open>Names and identifiers\<close>

lemma tolower_c_NUL: "tolower_c c = NUL \<longleftrightarrow> c = NUL"
  by (auto simp: tolower_c_def NUL_def split: option.splits if_splits)

lemma of_char_int_zero: "(of_char c :: int) = 0 \<longleftrightarrow> c = NUL"
proof -
  have "(of_char c :: int) = of_char NUL \<longleftrightarrow> c = NUL" by (rule of_char_eq_iff)
  then show ?thesis by (simp add: NUL_def)
qed

lemma strcasecmp_zero_iff: "strcasecmp a b = 0 \<longleftrightarrow> norm_c a = norm_c b"
proof (induction a b rule: strcasecmp.induct)
  case 1
  show ?case by (simp add: norm_c_def)
next
  case (2 b bs)
  show ?case by (auto simp: norm_c_def of_char_int_zero tolower_c_NUL)
next
  case (3 a as)
  show ?case by (auto simp: norm_c_def of_char_int_zero tolower_c_NUL)
next
  case (4 a as b bs)
  show ?case
  proof (cases "tolower_c a = tolower_c b")
    case False
    then show ?thesis by (auto simp: norm_c_def tolower_c_NUL)
  next
    case True
    then have ab: "a = NUL \<longleftrightarrow> b = NUL" by (metis tolower_c_NUL)
    show ?thesis
    proof (cases "a = NUL")
      case True
      with ab show ?thesis by (simp add: norm_c_def)
    next
      case False
      with ab \<open>tolower_c a = tolower_c b\<close> 4 show ?thesis by (simp add: norm_c_def)
    qed
  qed
qed

lemma find_name_from_sound:
  "find_name_from i ms s = Some j \<Longrightarrow>
     i \<le> j \<and> j - i < length ms \<and> (\<exists>n. mi_name (ms ! (j - i)) = Some n \<and> norm_c n = norm_c s)"
proof (induction ms arbitrary: i)
  case Nil
  then show ?case by simp
next
  case (Cons m ms)
  from Cons.prems obtain n where n: "mi_name m = Some n" by (auto split: option.splits)
  show ?case
  proof (cases "strcasecmp n s = 0")
    case True
    with Cons.prems n show ?thesis by (simp add: strcasecmp_zero_iff)
  next
    case False
    with Cons.prems n have "find_name_from (Suc i) ms s = Some j" by simp
    from Cons.IH[OF this] obtain n' where ih: "Suc i \<le> j" "j - Suc i < length ms"
       "mi_name (ms ! (j - Suc i)) = Some n'" "norm_c n' = norm_c s" by blast
    from ih(1) have e: "j - i = Suc (j - Suc i)" by simp
    show ?thesis unfolding e using ih by simp
  qed
qed

lemma find_name_from_complete:
  "k < length ms \<Longrightarrow> \<forall>n \<le> k. mi_name (ms ! n) \<noteq> None \<Longrightarrow>
   mi_name (ms ! k) = Some nm \<Longrightarrow> norm_c nm = norm_c s \<Longrightarrow>
   \<exists>j. find_name_from i ms s = Some j \<and> j \<le> i + k"
proof (induction ms arbitrary: i k)
  case Nil
  then show ?case by simp
next
  case (Cons m ms)
  show ?case
  proof (cases k)
    case 0
    with Cons.prems show ?thesis by (simp add: strcasecmp_zero_iff)
  next
    case (Suc k')
    from Cons.prems(2) obtain n where m: "mi_name m = Some n" by force
    from Cons.prems(2) Suc have all: "\<forall>n \<le> k'. mi_name (ms ! n) \<noteq> None" by force
    from Cons.prems Suc have "k' < length ms" "mi_name (ms ! k') = Some nm" by auto
    from Cons.IH[OF this(1) all this(2) Cons.prems(4), of "Suc i"] obtain j where
      "find_name_from (Suc i) ms s = Some j" "j \<le> Suc i + k'" by blast
    with m Suc show ?thesis by auto
  qed
qed

lemma names_distinct:
  "distinct (map (\<lambda>m. norm_c (the (mi_name m))) (take 16 mode_table))"
  by (simp add: mode_table_def mk_mode_def norm_c_def tolower_c_def NUL_def)

lemma find_id_from_nth:
  "k < length ms \<Longrightarrow> \<forall>n \<le> k. mi_name (ms ! n) \<noteq> None \<Longrightarrow>
   \<forall>n < k. mi_mode (ms ! n) \<noteq> mi_mode (ms ! k) \<Longrightarrow>
   find_id_from i ms (mi_mode (ms ! k)) = Some (i + k)"
proof (induction ms arbitrary: i k)
  case Nil
  then show ?case by simp
next
  case (Cons m ms)
  show ?case
  proof (cases k)
    case 0
    with Cons.prems show ?thesis by simp
  next
    case (Suc k')
    from Cons.prems(2) have m: "mi_name m \<noteq> None" by force
    from Cons.prems(3) Suc have m': "mi_mode m \<noteq> mi_mode (ms ! k')" by force
    from Cons.prems(2) Suc have all: "\<forall>n \<le> k'. mi_name (ms ! n) \<noteq> None" by force
    from Cons.prems(3) Suc have dist: "\<forall>n < k'. mi_mode (ms ! n) \<noteq> mi_mode (ms ! k')" by force
    from Cons.prems(1) Suc have "k' < length ms" by simp
    from Cons.IH[OF this all dist, of "Suc i"] m m' Suc show ?thesis by simp
  qed
qed

lemma modes_distinct: "distinct (map mi_mode (take 16 mode_table))"
  by (simp add: mode_table_def mk_mode_def)

lemma id_roundtrip_all:
  assumes i: "i < 16" shows "get_mode_info (mi_mode (mode_table ! i)) = Some i"
proof -
  have "\<forall>n < i. mi_mode (mode_table ! n) \<noteq> mi_mode (mode_table ! i)"
  proof (intro allI impI)
    fix n assume n: "n < i"
    have "map mi_mode (take 16 mode_table) ! n \<noteq> map mi_mode (take 16 mode_table) ! i"
      using modes_distinct n i table_length by (simp add: nth_eq_iff_index_eq del: nth_map)
    with n i table_length show "mi_mode (mode_table ! n) \<noteq> mi_mode (mode_table ! i)" by simp
  qed
  moreover have "\<forall>n \<le> i. mi_name (mode_table ! n) \<noteq> None"
    using i names_before_sentinel by simp
  ultimately show ?thesis
    using find_id_from_nth[of i mode_table 0] i table_length by (simp add: get_mode_info_def)
qed

text \<open>
  Claim C8. For every entry \<open>i\<close> of the mode table and every string \<open>s\<close> that
  \<open>strcasecmp\<close> finds equal to the entry's name (the name in any mixture of upper and
  lower case), \<open>find_mode_by_name s\<close> returns an entry \<open>j\<close>, \<open>get_mode_info\<close> of that
  entry's mode identifier returns \<open>j\<close> again, and \<open>j\<close> is the entry \<open>i\<close> started from.
\<close>

theorem lookup_name_id_roundtrip:
  assumes i: "i < 16" and nm: "mi_name (mode_table ! i) = Some n" and s: "strcasecmp n s = 0"
  shows "\<exists>j. find_mode_by_name s = Some j \<and> get_mode_info (mi_mode (mode_table ! j)) = Some j \<and> j = i"
proof -
  from s have ns: "norm_c n = norm_c s" by (simp add: strcasecmp_zero_iff)
  have "\<forall>n \<le> i. mi_name (mode_table ! n) \<noteq> None"
    using i names_before_sentinel by simp
  with i table_length nm ns find_name_from_complete[of i mode_table n s 0]
  obtain j where j: "find_name_from 0 mode_table s = Some j" "j \<le> i" by auto
  from find_name_from_sound[OF j(1)] obtain n' where
    n': "mi_name (mode_table ! j) = Some n'" "norm_c n' = norm_c s" by auto
  let ?f = "\<lambda>m. norm_c (the (mi_name m))"
  have "map ?f (take 16 mode_table) ! j = map ?f (take 16 mode_table) ! i"
    using i j(2) n' nm ns table_length by simp
  with names_distinct i j(2) table_length have "j = i"
    by (simp add: nth_eq_iff_index_eq del: nth_map)
  with j(1) id_roundtrip_all i show ?thesis by (simp add: find_mode_by_name_def)
qed

text \<open>
  The theorem at entry 10, looked up as \<open>1080P60\<close>.
\<close>

theorem lookup_name_id_roundtrip_witness:
  "(10::nat) < 16 \<and> mi_name (mode_table ! 10) = Some ''1080p60''
   \<and> strcasecmp ''1080p60'' ''1080P60'' = 0
   \<and> find_mode_by_name ''1080P60'' = Some 10
   \<and> get_mode_info (mi_mode (mode_table ! 10)) = Some 10"
proof -
  have a: "(10::nat) < 16" by simp
  have b: "mi_name (mode_table ! 10) = Some ''1080p60''" by (simp add: mode_table_def mk_mode_def)
  have c: "strcasecmp ''1080p60'' ''1080P60'' = 0" by (simp add: tolower_c_def NUL_def)
  from lookup_name_id_roundtrip [OF a b c] a b c show ?thesis by auto
qed

section \<open>The ioctl wrapper\<close>

lemmas de1_cmds = DE1_CMD_SCN_GET_WIDTH_def DE1_CMD_SCN_GET_HEIGHT_def DE1_CMD_GET_OUTPUT_TYPE_def
  DE1_CMD_HDMI_ON_def DE1_CMD_HDMI_OFF_def DE1_CMD_HDMI_SET_MODE_def DE1_CMD_HDMI_GET_MODE_def
  DE1_CMD_HDMI_SUPPORT_MODE_def DE1_CMD_HDMI_GET_HPD_def DE1_CMD_FB_REQUEST_def DE1_CMD_FB_RELEASE_def

lemma disp_ioctl_open:
  "g_disp_fd s \<ge> 0 \<Longrightarrow>
   disp_ioctl cmd args s =
     (r_ret (driver s (trace s) (Ioctl_disp cmd args)), s\<lparr>trace := trace s @ [Ioctl_disp cmd args]\<rparr>)"
  by (simp add: disp_ioctl_def disp_ioctl_resp_def syscall_def)

lemma disp_ioctl_closed:
  "g_disp_fd s < 0 \<Longrightarrow> disp_ioctl cmd args s = (- 1, s)"
  by (simp add: disp_ioctl_def disp_ioctl_resp_def)

lemma disp_ioctl_trace:
  "trace (snd (disp_ioctl cmd args s)) =
     (if g_disp_fd s < 0 then trace s else trace s @ [Ioctl_disp cmd args])"
  by (simp add: disp_ioctl_def disp_ioctl_resp_def syscall_def)

lemma disp_ioctl_force: "g_force (snd (disp_ioctl cmd args s)) = g_force s"
  by (simp add: disp_ioctl_def disp_ioctl_resp_def syscall_def split: prod.splits option.splits)

section \<open>HDMI initialisation on DE1\<close>

text \<open>
  Claim C1. \<open>de1_hdmi_init\<close>, for every mode and every state with the display device
  open. If \<open>g_force\<close> is 0 and the mode-support ioctl returns a value that is not
  positive, the result is \<open>-1\<close> and the support query is the only call made: no
  disable, set-mode or enable call. Otherwise (the support query is not even made when
  \<open>g_force\<close> is set) the disable call is made and its result ignored, then the set-mode
  call; if that returns a negative value the result is \<open>-1\<close> and no enable call is made;
  else the enable call is made and its return value is the result. With the device not
  open every wrapper fails without a call and the result is \<open>-1\<close>.
\<close>

theorem de1_hdmi_init_sequence:
  "(g_disp_fd s \<ge> 0 \<longrightarrow>
     (let D = driver s;
          scr = g_screen s;
          query = Ioctl_disp DE1_CMD_HDMI_SUPPORT_MODE [Val scr, Val md, Val 0, Val 0];
          off = Ioctl_disp DE1_CMD_HDMI_OFF [Val scr, Val 0, Val 0, Val 0];
          setm = Ioctl_disp DE1_CMD_HDMI_SET_MODE [Val scr, Val md, Val 0, Val 0];
          on = Ioctl_disp DE1_CMD_HDMI_ON [Val scr, Val 0, Val 0, Val 0];
          checked = trace s @ (if g_force s = 0 then [query] else [])
      in
        de1_hdmi_init md s =
          (if g_force s = 0 \<and> r_ret (D (trace s) query) \<le> 0
           then (- 1, s\<lparr>trace := trace s @ [query]\<rparr>)
           else if r_ret (D (checked @ [off]) setm) < 0
           then (- 1, s\<lparr>trace := checked @ [off, setm]\<rparr>)
           else (r_ret (D (checked @ [off, setm]) on), s\<lparr>trace := checked @ [off, setm, on]\<rparr>))))
   \<and> (g_disp_fd s < 0 \<longrightarrow> de1_hdmi_init md s = (- 1, s))"
proof (intro conjI impI)
  assume fd: "g_disp_fd s \<ge> 0"
  show "let D = driver s;
          scr = g_screen s;
          query = Ioctl_disp DE1_CMD_HDMI_SUPPORT_MODE [Val scr, Val md, Val 0, Val 0];
          off = Ioctl_disp DE1_CMD_HDMI_OFF [Val scr, Val 0, Val 0, Val 0];
          setm = Ioctl_disp DE1_CMD_HDMI_SET_MODE [Val scr, Val md, Val 0, Val 0];
          on = Ioctl_disp DE1_CMD_HDMI_ON [Val scr, Val 0, Val 0, Val 0];
          checked = trace s @ (if g_force s = 0 then [query] else [])
      in
        de1_hdmi_init md s =
          (if g_force s = 0 \<and> r_ret (D (trace s) query) \<le> 0
           then (- 1, s\<lparr>trace := trace s @ [query]\<rparr>)
           else if r_ret (D (checked @ [off]) setm) < 0
           then (- 1, s\<lparr>trace := checked @ [off, setm]\<rparr>)
           else (r_ret (D (checked @ [off, setm]) on), s\<lparr>trace := checked @ [off, setm, on]\<rparr>))"
    using fd
    by (simp add: de1_hdmi_init_def de1_hdmi_mode_supported_def de1_hdmi_off_def
          de1_hdmi_set_mode_def de1_hdmi_on_def disp_ioctl_open Let_def)
next
  assume fd: "g_disp_fd s < 0"
  then show "de1_hdmi_init md s = (- 1, s)"
    by (simp add: de1_hdmi_init_def de1_hdmi_mode_supported_def de1_hdmi_off_def
          de1_hdmi_set_mode_def de1_hdmi_on_def disp_ioctl_closed)
qed

text \<open>
  The theorem on an A20 whose driver answers 0 to every command: without \<open>g_force\<close> the
  mode is rejected after the support query, with \<open>g_force\<close> the three calls are made.
\<close>

theorem de1_hdmi_init_sequence_witness:
  "de1_hdmi_init 5 ((init_world drv_a20_ok)\<lparr>g_disp_fd := 3\<rparr>) =
     (- 1, (init_world drv_a20_ok)
             \<lparr>g_disp_fd := 3,
              trace := [Ioctl_disp DE1_CMD_HDMI_SUPPORT_MODE [Val 0, Val 5, Val 0, Val 0]]\<rparr>)
   \<and> de1_hdmi_init 5 ((init_world drv_a20_ok)\<lparr>g_disp_fd := 3, g_force := 1\<rparr>) =
     (0, (init_world drv_a20_ok)
           \<lparr>g_disp_fd := 3, g_force := 1,
            trace := [Ioctl_disp DE1_CMD_HDMI_OFF [Val 0, Val 0, Val 0, Val 0],
                      Ioctl_disp DE1_CMD_HDMI_SET_MODE [Val 0, Val 5, Val 0, Val 0],
                      Ioctl_disp DE1_CMD_HDMI_ON [Val 0, Val 0, Val 0, Val 0]]\<rparr>)"
  using de1_hdmi_init_sequence [of "(init_world drv_a20_ok)\<lparr>g_disp_fd := 3\<rparr>" 5]
        de1_hdmi_init_sequence [of "(init_world drv_a20_ok)\<lparr>g_disp_fd := 3, g_force := 1\<rparr>" 5]
  by (simp add: init_world_def drv_a20_ok_def resp_ret_def resp0_def de1_cmds Let_def)

section \<open>Detection\<close>

lemma scan_cpuinfo_find:
  "scan_cpuinfo ls =
     (case find (\<lambda>l. strstr l ''Hardware'') ls of
        None \<Rightarrow> DE_VERSION_UNKNOWN
      | Some l \<Rightarrow> classify_hardware l)"
  by (induction ls) simp_all

text \<open>
  Claim C2. \<open>detect_de_version\<close>, in every environment, with \<open>hw\<close> the first buffer read
  from \<open>/proc/cpuinfo\<close> that contains \<open>Hardware\<close> (if the file opens and has one):
  if \<open>hw\<close> contains a DE1 identifier the result is DE1; else if it contains a DE2
  identifier the result is DE2, in both cases without an ioctl. Otherwise the DE1 hot-plug
  ioctl is made, and unless it fails with \<open>ENOTTY\<close> the result is DE1; otherwise the DE2
  mode-support ioctl is made, and unless it fails with \<open>ENOTTY\<close> the result is DE2;
  otherwise the result is DE1. The result is never \<open>DE_VERSION_UNKNOWN\<close>.
\<close>

theorem detect_de_version_order:
  "(let D = driver s;
        h1 = trace s @ [Read_cpuinfo];
        hw = (case r_text (D (trace s) Read_cpuinfo) of
                None \<Rightarrow> None
              | Some text \<Rightarrow> find (\<lambda>l. strstr l ''Hardware'') (fgets_chunks 255 [] text));
        known1 = (case hw of None \<Rightarrow> False | Some l \<Rightarrow> is_de1_hardware l);
        known2 = (case hw of None \<Rightarrow> False | Some l \<Rightarrow> is_de2_hardware l);
        hpd = Ioctl_disp DE1_CMD_HDMI_GET_HPD [Val 0, Val 0, Val 0, Val 0];
        sup = Ioctl_disp DE2_CMD_HDMI_SUPPORT_MODE [Val 0, Val DISP_TV_MOD_720P_60HZ, Val 0, Val 0];
        r1 = D h1 hpd;
        r2 = D (h1 @ [hpd]) sup
    in detect_de_version s =
         (if known1 then (DE_VERSION_1, s\<lparr>trace := h1\<rparr>)
          else if known2 then (DE_VERSION_2, s\<lparr>trace := h1\<rparr>)
          else if \<not> (r_ret r1 < 0 \<and> r_errno r1 = ENOTTY)
          then (DE_VERSION_1, s\<lparr>trace := h1 @ [hpd]\<rparr>)
          else if \<not> (r_ret r2 < 0 \<and> r_errno r2 = ENOTTY)
          then (DE_VERSION_2, s\<lparr>trace := h1 @ [hpd, sup]\<rparr>)
          else (DE_VERSION_1, s\<lparr>trace := h1 @ [hpd, sup]\<rparr>)))
   \<and> fst (detect_de_version s) \<noteq> DE_VERSION_UNKNOWN"
proof
  show "fst (detect_de_version s) \<noteq> DE_VERSION_UNKNOWN"
    by (simp add: detect_de_version_def split: prod.splits)
  show "let D = driver s;
        h1 = trace s @ [Read_cpuinfo];
        hw = (case r_text (D (trace s) Read_cpuinfo) of
                None \<Rightarrow> None
              | Some text \<Rightarrow> find (\<lambda>l. strstr l ''Hardware'') (fgets_chunks 255 [] text));
        known1 = (case hw of None \<Rightarrow> False | Some l \<Rightarrow> is_de1_hardware l);
        known2 = (case hw of None \<Rightarrow> False | Some l \<Rightarrow> is_de2_hardware l);
        hpd = Ioctl_disp DE1_CMD_HDMI_GET_HPD [Val 0, Val 0, Val 0, Val 0];
        sup = Ioctl_disp DE2_CMD_HDMI_SUPPORT_MODE [Val 0, Val DISP_TV_MOD_720P_60HZ, Val 0, Val 0];
        r1 = D h1 hpd;
        r2 = D (h1 @ [hpd]) sup
    in detect_de_version s =
         (if known1 then (DE_VERSION_1, s\<lparr>trace := h1\<rparr>)
          else if known2 then (DE_VERSION_2, s\<lparr>trace := h1\<rparr>)
          else if \<not> (r_ret r1 < 0 \<and> r_errno r1 = ENOTTY)
          then (DE_VERSION_1, s\<lparr>trace := h1 @ [hpd]\<rparr>)
          else if \<not> (r_ret r2 < 0 \<and> r_errno r2 = ENOTTY)
          then (DE_VERSION_2, s\<lparr>trace := h1 @ [hpd, sup]\<rparr>)
          else (DE_VERSION_1, s\<lparr>trace := h1 @ [hpd, sup]\<rparr>))"
    by (auto simp: detect_de_version_def detect_soc_from_cpuinfo_def detect_by_ioctl_probe_def
          syscall_def scan_cpuinfo_find classify_hardware_def Let_def
          split: option.splits)
qed

text \<open>
  The theorem on a board without \<open>/proc/cpuinfo\<close> whose driver rejects the DE1 probe
  with \<open>ENOTTY\<close> and answers the DE2 probe: both probes are made and the result is DE2.
\<close>

theorem detect_de_version_order_witness:
  "detect_de_version (init_world drv_probe_de2) =
     (DE_VERSION_2,
      (init_world drv_probe_de2)
        \<lparr>trace := [Read_cpuinfo,
                   Ioctl_disp DE1_CMD_HDMI_GET_HPD [Val 0, Val 0, Val 0, Val 0],
                   Ioctl_disp DE2_CMD_HDMI_SUPPORT_MODE [Val 0, Val 5, Val 0, Val 0]]\<rparr>)"
  using detect_de_version_order [of "init_world drv_probe_de2"]
  by (simp add: init_world_def drv_probe_de2_def resp0_def resp_fail_def resp_ret_def
        DE1_CMD_HDMI_GET_HPD_def DE2_CMD_HDMI_SUPPORT_MODE_def DISP_TV_MOD_720P_60HZ_def Let_def)

section \<open>Scaled framebuffer setup\<close>

lemmas eval_defs = main_def init_world_def disp_open_def syscall_def resp_ret_def resp0_def resp_fail_def
     detect_de_version_def detect_soc_from_cpuinfo_def classify_hardware_def is_de1_hardware_def
     is_de2_hardware_def strstr_def NUL_def newline_def
     run_command_def disp_ioctl_def disp_ioctl_resp_def
     libc_stub_def disp_close_def Let_def

text \<open>
  Claim C3. \<open>setup_fb_with_scaling\<close> called with the same width and height for the
  framebuffer and the screen. On DE1 the calls made are the framebuffer release and then
  the framebuffer request, whose parameters carry work mode \<open>DE1_LAYER_WORK_MODE_NORMAL\<close>
  (0), not the scaler mode (4); nothing is called when the display device is not open. On
  DE2, if the framebuffer opens and \<open>FBIOGET_VSCREENINFO\<close> reports the resolution and
  depth asked for, the result is 0 and the open and the read are the only calls: no
  \<open>FBIOPUT_VSCREENINFO\<close> is issued.
\<close>

theorem setup_same_size_normal_or_untouched:
  "(g_de_version s = DE_VERSION_1 \<longrightarrow>
      (let release = Ioctl_disp DE1_CMD_FB_RELEASE [Val fb_id, Val 0, Val 0, Val 0];
           para = zero_para\<lparr>p_fb_mode := DE1_FB_MODE_SCREEN0,
                            p_mode := DE1_LAYER_WORK_MODE_NORMAL,
                            p_buffer_num := 1, p_width := w, p_height := h,
                            p_output_width := w, p_output_height := h,
                            p_primary_screen_id := g_screen s\<rparr>;
           request = Ioctl_disp DE1_CMD_FB_REQUEST [Val fb_id, Ptr_para para, Val 0, Val 0]
       in trace (snd (setup_fb_with_scaling fb_id w h w h depth s)) =
            (if g_disp_fd s \<ge> 0 then trace s @ [release, request] else trace s)
          \<and> p_mode para = 0 \<and> p_mode para \<noteq> DE1_LAYER_WORK_MODE_SCALER))
   \<and> (g_de_version s = DE_VERSION_2 \<longrightarrow>
      (let ro = driver s (trace s) Open_fb_rdwr;
           rg = driver s (trace s @ [Open_fb_rdwr]) Fbioget_vscreeninfo
       in r_ret ro \<ge> 0 \<and> r_ret rg \<ge> 0 \<and> xres (r_vinfo rg) = w \<and> yres (r_vinfo rg) = h \<and>
          bits_per_pixel (r_vinfo rg) = word_of_int depth \<longrightarrow>
          setup_fb_with_scaling fb_id w h w h depth s =
            (0, s\<lparr>trace := trace s @ [Open_fb_rdwr, Fbioget_vscreeninfo]\<rparr>)))"
proof (intro conjI impI)
  assume v: "g_de_version s = DE_VERSION_1"
  show "let release = Ioctl_disp DE1_CMD_FB_RELEASE [Val fb_id, Val 0, Val 0, Val 0];
           para = zero_para\<lparr>p_fb_mode := DE1_FB_MODE_SCREEN0,
                            p_mode := DE1_LAYER_WORK_MODE_NORMAL,
                            p_buffer_num := 1, p_width := w, p_height := h,
                            p_output_width := w, p_output_height := h,
                            p_primary_screen_id := g_screen s\<rparr>;
           request = Ioctl_disp DE1_CMD_FB_REQUEST [Val fb_id, Ptr_para para, Val 0, Val 0]
       in trace (snd (setup_fb_with_scaling fb_id w h w h depth s)) =
            (if g_disp_fd s \<ge> 0 then trace s @ [release, request] else trace s)
          \<and> p_mode para = 0 \<and> p_mode para \<noteq> DE1_LAYER_WORK_MODE_SCALER"
  proof (cases "g_disp_fd s \<ge> 0")
    case True
    with v show ?thesis
      by (simp add: setup_fb_with_scaling_def de1_setup_fb_with_scaling_def de1_fb_release_def
            de1_fb_request_def disp_ioctl_open Let_def DE1_LAYER_WORK_MODE_NORMAL_def
            DE1_LAYER_WORK_MODE_SCALER_def)
  next
    case False
    with v show ?thesis
      by (simp add: setup_fb_with_scaling_def de1_setup_fb_with_scaling_def de1_fb_release_def
            de1_fb_request_def disp_ioctl_closed Let_def DE1_LAYER_WORK_MODE_NORMAL_def
            DE1_LAYER_WORK_MODE_SCALER_def)
  qed
next
  assume v: "g_de_version s = DE_VERSION_2"
  then show "let ro = driver s (trace s) Open_fb_rdwr;
           rg = driver s (trace s @ [Open_fb_rdwr]) Fbioget_vscreeninfo
       in r_ret ro \<ge> 0 \<and> r_ret rg \<ge> 0 \<and> xres (r_vinfo rg) = w \<and> yres (r_vinfo rg) = h \<and>
          bits_per_pixel (r_vinfo rg) = word_of_int depth \<longrightarrow>
          setup_fb_with_scaling fb_id w h w h depth s =
            (0, s\<lparr>trace := trace s @ [Open_fb_rdwr, Fbioget_vscreeninfo]\<rparr>)"
    by (simp add: setup_fb_with_scaling_def de2_setup_fb_with_scaling_def syscall_def Let_def)
qed

text \<open>
  The theorem for 1280x720 at 32 bits on an A20, and on an H3 whose framebuffer already
  is 1280x720 at 32 bits.
\<close>

theorem setup_same_size_normal_or_untouched_witness:
  "trace (snd (setup_fb_with_scaling 0 1280 720 1280 720 32
                 ((init_world drv_a20_ok)\<lparr>g_de_version := DE_VERSION_1, g_disp_fd := 3\<rparr>))) =
     [Ioctl_disp DE1_CMD_FB_RELEASE [Val 0, Val 0, Val 0, Val 0],
      Ioctl_disp DE1_CMD_FB_REQUEST
        [Val 0,
         Ptr_para (zero_para\<lparr>p_mode := 0, p_buffer_num := 1, p_width := 1280, p_height := 720,
                             p_output_width := 1280, p_output_height := 720\<rparr>),
         Val 0, Val 0]]
   \<and> setup_fb_with_scaling 0 1280 720 1280 720 32
        ((init_world drv_h3_ok)\<lparr>g_de_version := DE_VERSION_2, g_disp_fd := 3\<rparr>) =
     (0, (init_world drv_h3_ok)
           \<lparr>g_de_version := DE_VERSION_2, g_disp_fd := 3,
            trace := [Open_fb_rdwr, Fbioget_vscreeninfo]\<rparr>)"
  using setup_same_size_normal_or_untouched [where s = "(init_world drv_a20_ok)\<lparr>g_de_version := DE_VERSION_1, g_disp_fd := 3\<rparr>"
              and fb_id = 0 and w = 1280 and h = 720 and depth = 32]
        setup_same_size_normal_or_untouched [where s = "(init_world drv_h3_ok)\<lparr>g_de_version := DE_VERSION_2, g_disp_fd := 3\<rparr>"
              and fb_id = 0 and w = 1280 and h = 720 and depth = 32]
  by (simp add: init_world_def drv_a20_ok_def drv_h3_ok_def resp_ret_def resp0_def vinfo_720p32_def
        uninit_vinfo_def Let_def DE1_FB_MODE_SCREEN0_def DE1_LAYER_WORK_MODE_NORMAL_def zero_para_def)

text \<open>
  The two setup functions of the unified program pass the sizes on as they are; the
  A20-only program's \<open>setup_fb_with_scaling\<close> returns \<open>-1\<close> for a zero width or
  height before any call.
\<close>

lemma de1_setup_calls:
  "g_disp_fd s \<ge> 0 \<Longrightarrow>
   trace (snd (de1_setup_fb_with_scaling fb_id fb_w fb_h scn_w scn_h depth s)) =
     trace s @
     [Ioctl_disp DE1_CMD_FB_RELEASE [Val fb_id, Val 0, Val 0, Val 0],
      Ioctl_disp DE1_CMD_FB_REQUEST
        [Val fb_id,
         Ptr_para (zero_para
           \<lparr>p_fb_mode := DE1_FB_MODE_SCREEN0,
            p_mode := (if fb_w \<noteq> scn_w \<or> fb_h \<noteq> scn_h then DE1_LAYER_WORK_MODE_SCALER
                       else DE1_LAYER_WORK_MODE_NORMAL),
            p_buffer_num := 1, p_width := fb_w, p_height := fb_h,
            p_output_width := scn_w, p_output_height := scn_h,
            p_primary_screen_id := g_screen s\<rparr>),
         Val 0, Val 0]]"
  by (simp add: de1_setup_fb_with_scaling_def de1_fb_release_def de1_fb_request_def
        disp_ioctl_open Let_def)

lemma a20_setup_rejects_zero_size:
  "fb_width = 0 \<or> fb_height = 0 \<or> scn_width = 0 \<or> scn_height = 0 \<Longrightarrow>
   a20_setup_fb_with_scaling fb_id fb_width fb_height scn_width scn_height depth s = (- 1, s)"
  by (auto simp: a20_setup_fb_with_scaling_def Let_def)

text \<open>
  Claim C9 says that a zero width or height is rejected before any device control call.
  Neither \<open>de1_setup_fb_with_scaling\<close> nor \<open>de2_setup_fb_with_scaling\<close> looks at the
  values: the command \<open>scale 0x0 1280x720 32\<close> on an A20 whose driver accepts every
  command releases the framebuffer, requests a 0x0 framebuffer in scaler mode and
  returns 0; on an H3 it opens the framebuffer and writes a 0x0 resolution with
  \<open>FBIOPUT_VSCREENINFO\<close>.
\<close>

theorem zero_size_reaches_device:
  "main libc_stub [''prog'', ''scale'', ''0x0'', ''1280x720'', ''32''] (init_world drv_a20_ok) =
     (0, (init_world drv_a20_ok)
           \<lparr>g_de_version := DE_VERSION_1, g_disp_fd := - 1,
            trace := [Open_disp, Read_cpuinfo,
                      Ioctl_disp DE1_CMD_FB_RELEASE [Val 0, Val 0, Val 0, Val 0],
                      Ioctl_disp DE1_CMD_FB_REQUEST
                        [Val 0,
                         Ptr_para (zero_para\<lparr>p_mode := DE1_LAYER_WORK_MODE_SCALER,
                                             p_buffer_num := 1, p_width := 0, p_height := 0,
                                             p_output_width := 1280, p_output_height := 720\<rparr>),
                         Val 0, Val 0]]\<rparr>)
   \<and> fst (main libc_stub [''prog'', ''scale'', ''0x0'', ''1280x720'', ''32''] (init_world drv_h3_ok)) = 0
   \<and> trace (snd (main libc_stub [''prog'', ''scale'', ''0x0'', ''1280x720'', ''32'']
                   (init_world drv_h3_ok))) =
       [Open_disp, Read_cpuinfo, Open_fb_rdwr, Fbioget_vscreeninfo,
        Fbioput_vscreeninfo
          (set_color_format 32
             (vinfo_720p32\<lparr>xres := 0, yres := 0, xres_virtual := 0, yres_virtual := 0,
                            bits_per_pixel := 32\<rparr>))]"
  by (simp add: eval_defs drv_a20_ok_def drv_h3_ok_def cmd_scale_def parse_resolution_def
        setup_fb_with_scaling_def de1_setup_fb_with_scaling_def de1_fb_release_def
        de1_fb_request_def de2_setup_fb_with_scaling_def de1_cmds zero_para_def
        DE1_LAYER_WORK_MODE_SCALER_def DE1_LAYER_WORK_MODE_NORMAL_def DE1_FB_MODE_SCREEN0_def
        vinfo_720p32_def uninit_vinfo_def set_color_format_def)

section \<open>The force flag across hdmi\_on\<close>

lemma hdmi_get_mode_force: "g_force (snd (hdmi_get_mode s)) = g_force s"
  by (simp add: hdmi_get_mode_def de1_hdmi_get_mode_def de2_hdmi_get_mode_def
        disp_ioctl_def disp_ioctl_resp_def syscall_def split: de_version_t.splits prod.splits option.splits)

text \<open>
  Claim C5. For every state and either generation, \<open>g_force\<close> after \<open>hdmi_on\<close> is what
  it was before the call: on the path where the simple enable succeeds, on the fallback
  path through \<open>de1_hdmi_init\<close>, on the DE2 path through \<open>de2_hdmi_init\<close>, and whatever
  these return.
\<close>

theorem hdmi_on_restores_force: "g_force (snd (hdmi_on s)) = g_force s"
proof (cases "g_de_version s")
  case DE_VERSION_UNKNOWN
  then show ?thesis by (simp add: hdmi_on_def)
next
  case DE_VERSION_1
  obtain ret s1 where on: "de1_hdmi_on s = (ret, s1)" by (cases "de1_hdmi_on s")
  have "g_force (snd (de1_hdmi_on s)) = g_force s"
    unfolding de1_hdmi_on_def by (rule disp_ioctl_force)
  with on have f: "g_force s1 = g_force s" by simp
  show ?thesis using DE_VERSION_1 on f
    by (simp add: hdmi_on_def Let_def split: prod.splits)
next
  case DE_VERSION_2
  obtain md s1 where gm: "hdmi_get_mode s = (md, s1)" by (cases "hdmi_get_mode s")
  with hdmi_get_mode_force[of s] have f: "g_force s1 = g_force s" by simp
  show ?thesis using DE_VERSION_2 gm f
    by (simp add: hdmi_on_def Let_def split: prod.splits)
qed

text \<open>
  The theorem on an A20 whose driver rejects every command (the enable fails, the forced
  initialisation fails, \<open>hdmi_on\<close> returns \<open>-1\<close>), and on an H3: \<open>g_force\<close> is 0 before
  and after.
\<close>

theorem hdmi_on_restores_force_witness:
  "g_force (snd (hdmi_on ((init_world drv_a20_refuse)\<lparr>g_de_version := DE_VERSION_1, g_disp_fd := 3\<rparr>))) = 0
   \<and> fst (hdmi_on ((init_world drv_a20_refuse)\<lparr>g_de_version := DE_VERSION_1, g_disp_fd := 3\<rparr>)) = - 1
   \<and> g_force (snd (hdmi_on ((init_world drv_h3_ok)\<lparr>g_de_version := DE_VERSION_2, g_disp_fd := 3\<rparr>))) = 0"
  using hdmi_on_restores_force [of "(init_world drv_a20_refuse)\<lparr>g_de_version := DE_VERSION_1, g_disp_fd := 3\<rparr>"]
        hdmi_on_restores_force [of "(init_world drv_h3_ok)\<lparr>g_de_version := DE_VERSION_2, g_disp_fd := 3\<rparr>"]
  by (simp add: init_world_def hdmi_on_def de1_hdmi_on_def de1_hdmi_init_def de1_hdmi_off_def
        de1_hdmi_set_mode_def disp_ioctl_open drv_a20_refuse_def resp_fail_def resp0_def Let_def)

section \<open>The dispatcher before detection\<close>




section \<open>Depth arguments\<close>

lemma get_fb_info_queries:
  "\<exists>q. trace (snd (get_fb_info True False v s)) = trace s @ q \<and> list_all is_geometry_query q"
  by (simp add: get_fb_info_def syscall_def is_geometry_query_def split: prod.splits)

lemma de1_get_screen_size_queries:
  "\<exists>q. trace (snd (de1_get_screen_size wh s)) = trace s @ q \<and> list_all is_geometry_query q"
proof (cases "disp_ioctl DE1_CMD_SCN_GET_WIDTH [Val (g_screen s), Val 0, Val 0, Val 0] s")
  case (Pair ret s1)
  with disp_ioctl_trace[of DE1_CMD_SCN_GET_WIDTH "[Val (g_screen s), Val 0, Val 0, Val 0]" s]
  have t1: "trace s1 = (if g_disp_fd s < 0 then trace s
              else trace s @ [Ioctl_disp DE1_CMD_SCN_GET_WIDTH [Val (g_screen s), Val 0, Val 0, Val 0]])"
    by simp
  show ?thesis
  proof (cases "disp_ioctl DE1_CMD_SCN_GET_HEIGHT [Val (g_screen s1), Val 0, Val 0, Val 0] s1")
    case (Pair ret2 s2)
    with disp_ioctl_trace[of DE1_CMD_SCN_GET_HEIGHT "[Val (g_screen s1), Val 0, Val 0, Val 0]" s1]
    have t2: "trace s2 = (if g_disp_fd s1 < 0 then trace s1
              else trace s1 @ [Ioctl_disp DE1_CMD_SCN_GET_HEIGHT [Val (g_screen s1), Val 0, Val 0, Val 0]])"
      by simp
    show ?thesis
      using \<open>disp_ioctl DE1_CMD_SCN_GET_WIDTH [Val (g_screen s), Val 0, Val 0, Val 0] s = (ret, s1)\<close>
        Pair t1 t2
      by (simp add: de1_get_screen_size_def is_geometry_query_def)
  qed
qed

lemma de2_get_screen_size_queries:
  "\<exists>q. trace (snd (de2_get_screen_size wh s)) = trace s @ q \<and> list_all is_geometry_query q"
proof (cases "disp_ioctl DE2_CMD_GET_SCN_WIDTH [Val (g_screen s), Val 0, Val 0, Val 0] s")
  case (Pair ret s1)
  with disp_ioctl_trace[of DE2_CMD_GET_SCN_WIDTH "[Val (g_screen s), Val 0, Val 0, Val 0]" s]
  have t1: "trace s1 = (if g_disp_fd s < 0 then trace s
              else trace s @ [Ioctl_disp DE2_CMD_GET_SCN_WIDTH [Val (g_screen s), Val 0, Val 0, Val 0]])"
    by simp
  show ?thesis
  proof (cases "disp_ioctl DE2_CMD_GET_SCN_HEIGHT [Val (g_screen s1), Val 0, Val 0, Val 0] s1")
    case (Pair ret2 s2)
    with disp_ioctl_trace[of DE2_CMD_GET_SCN_HEIGHT "[Val (g_screen s1), Val 0, Val 0, Val 0]" s1]
    have t2: "trace s2 = (if g_disp_fd s1 < 0 then trace s1
              else trace s1 @ [Ioctl_disp DE2_CMD_GET_SCN_HEIGHT [Val (g_screen s1), Val 0, Val 0, Val 0]])"
      by simp
    show ?thesis
      using \<open>disp_ioctl DE2_CMD_GET_SCN_WIDTH [Val (g_screen s), Val 0, Val 0, Val 0] s = (ret, s1)\<close>
        Pair t1 t2
      by (simp add: de2_get_screen_size_def is_geometry_query_def)
  qed
qed

lemma get_screen_size_queries:
  "\<exists>q. trace (snd (get_screen_size wh s)) = trace s @ q \<and> list_all is_geometry_query q"
  by (cases "g_de_version s")
     (simp_all add: get_screen_size_def de1_get_screen_size_queries de2_get_screen_size_queries)

lemma cmd_scale_bad_depth:
  assumes "atoi lc (rest ! 3) \<noteq> 16" "atoi lc (rest ! 3) \<noteq> 24" "atoi lc (rest ! 3) \<noteq> 32"
  shows "cmd_scale lc rest s = (1, s)"
  using assms by (simp add: cmd_scale_def Let_def split: option.splits)

lemma cmd_noscale_bad_depth:
  assumes "1 < length rest"
    and "atoi lc (rest ! 1) \<noteq> 16" "atoi lc (rest ! 1) \<noteq> 24" "atoi lc (rest ! 1) \<noteq> 32"
  shows "fst (cmd_noscale lc rest s) = 1 \<and>
         (\<exists>q. trace (snd (cmd_noscale lc rest s)) = trace s @ q \<and> list_all is_geometry_query q)"
proof (cases "get_screen_size (0, 0) s")
  case (Pair res s1)
  obtain rs w h where res: "res = (rs, w, h)" by (cases res)
  from get_screen_size_queries[of "(0, 0)" s] Pair
  obtain q where q: "trace s1 = trace s @ q" "list_all is_geometry_query q" by auto
  from assms Pair res have "cmd_noscale lc rest s = (1, s1)"
    by (simp add: cmd_noscale_def Let_def)
  with q show ?thesis by simp
qed

lemma cmd_autoscale_bad_depth:
  assumes "1 < length rest"
    and "atoi lc (rest ! 1) \<noteq> 16" "atoi lc (rest ! 1) \<noteq> 24" "atoi lc (rest ! 1) \<noteq> 32"
  shows "fst (cmd_autoscale lc rest s) = 1 \<and>
         (\<exists>q. trace (snd (cmd_autoscale lc rest s)) = trace s @ q \<and> list_all is_geometry_query q)"
proof (cases "get_fb_info True False uninit_vinfo s")
  case (Pair resf s1)
  obtain rf vinfo where resf: "resf = (rf, vinfo)" by (cases resf)
  from get_fb_info_queries[of uninit_vinfo s] Pair
  obtain q1 where q1: "trace s1 = trace s @ q1" "list_all is_geometry_query q1" by auto
  show ?thesis
  proof (cases "rf < 0")
    case True
    with Pair resf have "cmd_autoscale lc rest s = (1, s1)" by (simp add: cmd_autoscale_def)
    with q1 show ?thesis by simp
  next
    case False
    show ?thesis
    proof (cases "get_screen_size (0, 0) s1")
      case (Pair res s2)
      obtain rs w h where res: "res = (rs, w, h)" by (cases res)
      from get_screen_size_queries[of "(0, 0)" s1] Pair
      obtain q2 where q2: "trace s2 = trace s1 @ q2" "list_all is_geometry_query q2" by auto
      from assms False \<open>get_fb_info True False uninit_vinfo s = (resf, s1)\<close> resf Pair res
      have "cmd_autoscale lc rest s = (1, s2)"
        by (simp add: cmd_autoscale_def Let_def)
      with q1 q2 show ?thesis by simp
    qed
  qed
qed

text \<open>
  Claim C4 says that a depth other than 16, 24 or 32 is rejected before any device call.
  For \<open>noscale 8\<close> on an A20 the command is rejected with 1, but only after the screen
  width and height ioctls have been made.
\<close>

theorem bad_depth_rejected_after_queries:
  "fst (main libc_stub [''prog'', ''noscale'', ''8''] (init_world drv_a20_ok)) = 1
   \<and> atoi libc_stub ''8'' = 8
   \<and> trace (snd (main libc_stub [''prog'', ''noscale'', ''8''] (init_world drv_a20_ok))) =
       [Open_disp, Read_cpuinfo,
        Ioctl_disp DE1_CMD_SCN_GET_WIDTH [Val 0, Val 0, Val 0, Val 0],
        Ioctl_disp DE1_CMD_SCN_GET_HEIGHT [Val 0, Val 0, Val 0, Val 0]]"
  by (simp add: eval_defs drv_a20_ok_def cmd_noscale_def get_screen_size_def
        de1_get_screen_size_def DE1_CMD_SCN_GET_WIDTH_def DE1_CMD_SCN_GET_HEIGHT_def)

text \<open>
  Claim C4, amended. When the arguments left by the option loop are \<open>scale a b d\<close>,
  \<open>autoscale d\<close> or \<open>noscale d\<close> and \<open>atoi d\<close> is not 16, 24 or 32, \<open>main\<close> returns 1
  and the framebuffer setup is not started: every call made after \<open>disp_open\<close> is a
  geometry query (read-only framebuffer open, \<open>FBIOGET_VSCREENINFO\<close>, screen width or
  height ioctl), so there is no framebuffer release or request and no
  \<open>FBIOPUT_VSCREENINFO\<close>; for \<open>scale\<close> no call at all is made after \<open>disp_open\<close>.
\<close>

theorem bad_depth_rejected_before_setup:
  assumes po: "parse_options lc (tl argv) s = (Inr rest, s1)"
    and cmd: "(\<exists>a b more. rest = ''scale'' # a # b # d # more) \<or>
              (\<exists>more. rest = ''autoscale'' # d # more) \<or>
              (\<exists>more. rest = ''noscale'' # d # more)"
    and bad: "atoi lc d \<noteq> 16" "atoi lc d \<noteq> 24" "atoi lc d \<noteq> 32"
  shows "fst (main lc argv s) = 1 \<and>
         (\<exists>q. trace (snd (main lc argv s)) = trace (snd (disp_open s1)) @ q \<and>
              list_all is_geometry_query q \<and>
              (hd rest = ''scale'' \<longrightarrow> q = []))"
proof -
  from cmd have ne: "rest \<noteq> []" by auto
  have len: "\<not> length argv < 2"
  proof
    assume "length argv < 2"
    then have "tl argv = []" by (cases argv) auto
    with po ne show False by simp
  qed
  obtain r s2 where op: "disp_open s1 = (r, s2)" by (cases "disp_open s1")
  show ?thesis
  proof (cases "r < 0")
    case True
    with len po ne op have "main lc argv s = (1, s2)" by (simp add: main_def)
    with op show ?thesis by simp
  next
    case False
    obtain ret s3 where rc: "run_command lc rest s2 = (ret, s3)" by (cases "run_command lc rest s2")
    from len po ne op False rc have m: "main lc argv s = (ret, disp_close s3)"
      by (simp add: main_def)
    have tc: "trace (disp_close s3) = trace s3" by (simp add: disp_close_def)
    from cmd consider
        (scale) a b more where "rest = ''scale'' # a # b # d # more"
      | (autoscale) more where "rest = ''autoscale'' # d # more"
      | (noscale) more where "rest = ''noscale'' # d # more" by blast
    then have "ret = 1 \<and> (\<exists>q. trace s3 = trace s2 @ q \<and> list_all is_geometry_query q \<and>
                 (hd rest = ''scale'' \<longrightarrow> q = []))"
    proof cases
      case scale
      with bad have "cmd_scale lc rest s2 = (1, s2)" by (simp add: cmd_scale_bad_depth)
      with scale rc show ?thesis by (simp add: run_command_def)
    next
      case autoscale
      with bad cmd_autoscale_bad_depth[of rest lc s2]
      have "fst (cmd_autoscale lc rest s2) = 1 \<and>
         (\<exists>q. trace (snd (cmd_autoscale lc rest s2)) = trace s2 @ q \<and> list_all is_geometry_query q)"
        by simp
      moreover from autoscale rc have "cmd_autoscale lc rest s2 = (ret, s3)"
        by (simp add: run_command_def)
      ultimately show ?thesis using autoscale by simp
    next
      case noscale
      with bad cmd_noscale_bad_depth[of rest lc s2]
      have "fst (cmd_noscale lc rest s2) = 1 \<and>
         (\<exists>q. trace (snd (cmd_noscale lc rest s2)) = trace s2 @ q \<and> list_all is_geometry_query q)"
        by simp
      moreover from noscale rc have "cmd_noscale lc rest s2 = (ret, s3)"
        by (simp add: run_command_def)
      ultimately show ?thesis using noscale by simp
    qed
    with m tc op show ?thesis by simp
  qed
qed

text \<open>
  The theorem for \<open>noscale 8\<close> on an A20.
\<close>

theorem bad_depth_rejected_before_setup_witness:
  "parse_options libc_stub (tl [''prog'', ''noscale'', ''8'']) (init_world drv_a20_ok) =
     (Inr [''noscale'', ''8''], init_world drv_a20_ok)
   \<and> atoi libc_stub ''8'' \<noteq> 16 \<and> atoi libc_stub ''8'' \<noteq> 24 \<and> atoi libc_stub ''8'' \<noteq> 32
   \<and> fst (main libc_stub [''prog'', ''noscale'', ''8''] (init_world drv_a20_ok)) = 1
   \<and> (\<exists>q. trace (snd (main libc_stub [''prog'', ''noscale'', ''8''] (init_world drv_a20_ok))) =
             trace (snd (disp_open (init_world drv_a20_ok))) @ q \<and>
           list_all is_geometry_query q \<and>
           (hd [''noscale'', ''8''] = ''scale'' \<longrightarrow> q = []))"
proof -
  have po: "parse_options libc_stub (tl [''prog'', ''noscale'', ''8'']) (init_world drv_a20_ok) =
     (Inr [''noscale'', ''8''], init_world drv_a20_ok)" by simp
  have cmd: "(\<exists>a b more. [''noscale'', ''8''] = ''scale'' # a # b # ''8'' # more) \<or>
              (\<exists>more. [''noscale'', ''8''] = ''autoscale'' # ''8'' # more) \<or>
              (\<exists>more. [''noscale'', ''8''] = ''noscale'' # ''8'' # more)" by simp
  have bad: "atoi libc_stub ''8'' \<noteq> 16" "atoi libc_stub ''8'' \<noteq> 24" "atoi libc_stub ''8'' \<noteq> 32"
    by (simp_all add: libc_stub_def)
  from bad_depth_rejected_before_setup [OF po cmd bad] po bad show ?thesis by simp
qed

section \<open>The value main returns\<close>

lemma passed_through_const [simp]:
  "passed_through (0, s)" "passed_through (1, s)" "passed_through (- 1, s)"
  by (simp_all add: passed_through_def)

lemma passed_through_upd [simp]:
  "passed_through (r, s\<lparr>g_force := f\<rparr>) = passed_through (r, s)"
  "passed_through (r, s\<lparr>g_disp_fd := d\<rparr>) = passed_through (r, s)"
  "passed_through (r, s\<lparr>g_fb_fd := d\<rparr>) = passed_through (r, s)"
  by (simp_all add: passed_through_def)



















































end
